theory Spec2Isabelle
  imports Complex_Main "HOL-Library.Sublist" "HOL-Library.Word"
begin

unbundle bit_operations_syntax

section \<open>Strings\<close>

text \<open>
  A Python \<open>str\<close> is modelled as a list of characters, each a code point below 256
  (\<open>Chr\<close>) or a lone surrogate \<open>U+DC80\<close>..\<open>U+DCFF\<close> (\<open>Surrogate\<close>, with the byte it
  stands for): the operating system's file names reach Python decoded with the
  \<open>surrogateescape\<close> handler, which turns every byte that is not valid UTF-8 into such a
  surrogate. \<open>py\<close> writes a string literal of the source.

  On the code points below 256 \<open>str.lower\<close> moves \<open>A\<close>..\<open>Z\<close> and the letters
  \<open>0xC0\<close>..\<open>0xDE\<close> (without the multiplication sign \<open>0xD7\<close>) up by 32 and leaves every
  other character alone, the surrogates too. \<open>str.upper\<close> is only applied by the source
  to the constant tag names \<open>TITLE\<close>, \<open>ARTIST\<close> and \<open>ALBUM\<close>; it is modelled on the
  ASCII letters.
\<close>

datatype pychar = Chr char | Surrogate "8 word"

type_synonym pystr = "pychar list"

definition py :: "string \<Rightarrow> pystr" where
  "py s = map Chr s"

definition lower_point :: "char \<Rightarrow> char" where
  "lower_point c =
     (let n = (of_char c :: nat) in
      if (65 \<le> n \<and> n \<le> 90) \<or> (192 \<le> n \<and> n \<le> 222 \<and> n \<noteq> 215)
      then char_of (n + 32) else c)"

fun lower_char :: "pychar \<Rightarrow> pychar" where
  "lower_char (Chr c) = Chr (lower_point c)"
| "lower_char (Surrogate b) = Surrogate b"

definition lower :: "pystr \<Rightarrow> pystr" where
  "lower s = map lower_char s"

definition upper_point :: "char \<Rightarrow> char" where
  "upper_point c =
     (let n = (of_char c :: nat) in
      if 97 \<le> n \<and> n \<le> 122 then char_of (n - 32) else c)"

fun upper_char :: "pychar \<Rightarrow> pychar" where
  "upper_char (Chr c) = Chr (upper_point c)"
| "upper_char (Surrogate b) = Surrogate b"

definition upper :: "pystr \<Rightarrow> pystr" where
  "upper s = map upper_char s"

text \<open>\<open>sep.join(xs)\<close>.\<close>

fun join :: "pystr \<Rightarrow> pystr list \<Rightarrow> pystr" where
  "join sep [] = []"
| "join sep [x] = x"
| "join sep (x # y # ys) = x @ sep @ join sep (y # ys)"

text \<open>\<open>s.split(sep)\<close> for a one-character separator.\<close>

fun split_on :: "pychar \<Rightarrow> pystr \<Rightarrow> pystr list" where
  "split_on sep [] = [[]]"
| "split_on sep (c # cs) =
     (if c = sep then [] # split_on sep cs
      else (case split_on sep cs of
              [] \<Rightarrow> [[c]]
            | w # ws \<Rightarrow> (c # w) # ws))"

text \<open>\<open>s.rfind(c)\<close>: the index of the last occurrence of \<open>c\<close>, or \<open>-1\<close>.\<close>

fun rfind :: "pystr \<Rightarrow> pychar \<Rightarrow> int" where
  "rfind [] c = -1"
| "rfind (x # xs) c =
     (let r = rfind xs c in
      if r \<noteq> -1 then r + 1 else if x = c then 0 else -1)"

section \<open>Paths\<close>

text \<open>
  A \<open>pathlib\<close> POSIX path is modelled by its tuple of \<open>parts\<close>: the root (\<open>/\<close> or
  \<open>//\<close>) is the first part of an absolute path, and the other parts are the components.
  The operations are those of a pure path: they look at the text only, and a component
  \<open>..\<close> is a component like any other.
\<close>

type_synonym path = "pystr list"

definition is_root :: "pystr \<Rightarrow> bool" where
  "is_root r = (r = py ''/'' \<or> r = py ''//'')"

definition has_root :: "path \<Rightarrow> bool" where
  "has_root p = (case p of [] \<Rightarrow> False | r # _ \<Rightarrow> is_root r)"

text \<open>
  \<open>Path(s)\<close>: the components between slashes, without the empty ones and the \<open>.\<close>
  ones; exactly two leading slashes give the root \<open>//\<close>, one or more than two the
  root \<open>/\<close>.
\<close>

definition Path :: "pystr \<Rightarrow> path" where
  "Path s =
     (let comps = filter (\<lambda>c. c \<noteq> [] \<and> c \<noteq> py ''.'') (split_on (Chr CHR ''/'') s);
          slashes = length (takeWhile (\<lambda>c. c = Chr CHR ''/'') s)
      in if slashes = 2 then py ''//'' # comps
         else if 0 < slashes then py ''/'' # comps
         else comps)"

text \<open>\<open>str(path)\<close>.\<close>

definition str_path :: "path \<Rightarrow> pystr" where
  "str_path p =
     (case p of
        [] \<Rightarrow> py ''.''
      | r # rest \<Rightarrow> if is_root r then r @ join (py ''/'') rest else join (py ''/'') p)"

text \<open>\<open>path.name\<close>: the last component, empty for the root and for the empty path.\<close>

definition name :: "path \<Rightarrow> pystr" where
  "name p =
     (if p = [] \<or> (has_root p \<and> length p = 1) then [] else last p)"

text \<open>
  \<open>path.suffix\<close> and \<open>path.stem\<close>: the name is cut at its last dot, unless that dot
  is the first or the last character of the name.
\<close>

definition suffix_path :: "path \<Rightarrow> pystr" where
  "suffix_path p =
     (let nm = name p; i = rfind nm (Chr CHR ''.'') in
      if 0 < i \<and> i < int (length nm) - 1 then drop (nat i) nm else [])"

definition stem :: "path \<Rightarrow> pystr" where
  "stem p =
     (let nm = name p; i = rfind nm (Chr CHR ''.'') in
      if 0 < i \<and> i < int (length nm) - 1 then take (nat i) nm else nm)"

text \<open>The exceptions that the modelled calls raise.\<close>

datatype exn = OSError | MutagenError | ValueError | IndexError | UnicodeEncodeError

text \<open>
  \<open>path.relative_to(other)\<close>: the parts of \<open>other\<close> must be the first parts of the
  path, and a rooted path is not relative to the empty path; otherwise \<open>ValueError\<close>.
\<close>

definition relative_to :: "path \<Rightarrow> pystr \<Rightarrow> exn + path" where
  "relative_to p other =
     (let to_parts = Path other; n = length to_parts in
      if (if n = 0 then has_root p else take n p \<noteq> to_parts)
      then Inl ValueError
      else Inr (drop n p))"

section \<open>The identifier: MD5 of the encoded path string\<close>

text \<open>
  \<open>str.encode()\<close> is strict UTF-8: a code point below 128 is one byte, one from 128 to
  255 is two bytes, and a surrogate cannot be encoded: \<open>UnicodeEncodeError\<close>.
\<close>

definition utf8 :: "char \<Rightarrow> 8 word list" where
  "utf8 c =
     (let n = (of_char c :: nat) in
      if n < 128 then [of_nat n]
      else [0xC0 OR of_nat (n div 64), 0x80 OR of_nat (n mod 64)])"

fun encode :: "pystr \<Rightarrow> exn + 8 word list" where
  "encode [] = Inr []"
| "encode (Surrogate b # s) = Inl UnicodeEncodeError"
| "encode (Chr c # s) =
     (case encode s of
        Inl e \<Rightarrow> Inl e
      | Inr data \<Rightarrow> Inr (utf8 c @ data))"

text \<open>
  \<open>hashlib.md5(data).hexdigest()\<close> is the MD5 message digest (RFC 1321) written as
  lowercase hexadecimal digits: per-round shifts \<open>md5_s\<close>, the sine table \<open>md5_K\<close>, a
  message padded with \<open>0x80\<close>, zero bytes and its 64-bit length in bits, processed in
  chunks of 64 bytes read as sixteen little-endian 32-bit words.
\<close>

definition md5_s :: "nat list" where
  "md5_s =
     [7, 12, 17, 22, 7, 12, 17, 22, 7, 12, 17, 22, 7, 12, 17, 22,
      5, 9, 14, 20, 5, 9, 14, 20, 5, 9, 14, 20, 5, 9, 14, 20,
      4, 11, 16, 23, 4, 11, 16, 23, 4, 11, 16, 23, 4, 11, 16, 23,
      6, 10, 15, 21, 6, 10, 15, 21, 6, 10, 15, 21, 6, 10, 15, 21]"

definition md5_K :: "32 word list" where
  "md5_K =
     [0xd76aa478, 0xe8c7b756, 0x242070db, 0xc1bdceee,
      0xf57c0faf, 0x4787c62a, 0xa8304613, 0xfd469501,
      0x698098d8, 0x8b44f7af, 0xffff5bb1, 0x895cd7be,
      0x6b901122, 0xfd987193, 0xa679438e, 0x49b40821,
      0xf61e2562, 0xc040b340, 0x265e5a51, 0xe9b6c7aa,
      0xd62f105d, 0x02441453, 0xd8a1e681, 0xe7d3fbc8,
      0x21e1cde6, 0xc33707d6, 0xf4d50d87, 0x455a14ed,
      0xa9e3e905, 0xfcefa3f8, 0x676f02d9, 0x8d2a4c8a,
      0xfffa3942, 0x8771f681, 0x6d9d6122, 0xfde5380c,
      0xa4beea44, 0x4bdecfa9, 0xf6bb4b60, 0xbebfbc70,
      0x289b7ec6, 0xeaa127fa, 0xd4ef3085, 0x04881d05,
      0xd9d4d039, 0xe6db99e5, 0x1fa27cf8, 0xc4ac5665,
      0xf4292244, 0x432aff97, 0xab9423a7, 0xfc93a039,
      0x655b59c3, 0x8f0ccc92, 0xffeff47d, 0x85845dd1,
      0x6fa87e4f, 0xfe2ce6e0, 0xa3014314, 0x4e0811a1,
      0xf7537e82, 0xbd3af235, 0x2ad7d2bb, 0xeb86d391]"

definition leftrotate :: "32 word \<Rightarrow> nat \<Rightarrow> 32 word" where
  "leftrotate x c = push_bit c x OR drop_bit (32 - c) x"

type_synonym md5_state = "32 word \<times> 32 word \<times> 32 word \<times> 32 word"

definition md5_step :: "32 word list \<Rightarrow> md5_state \<Rightarrow> nat \<Rightarrow> md5_state" where
  "md5_step M st i =
     (case st of (A, B, C, D) \<Rightarrow>
        let (F, g) =
              (if i < 16 then ((B AND C) OR (NOT B AND D), i)
               else if i < 32 then ((D AND B) OR (NOT D AND C), (5 * i + 1) mod 16)
               else if i < 48 then (B XOR C XOR D, (3 * i + 5) mod 16)
               else (C XOR (B OR NOT D), (7 * i) mod 16));
            F' = F + A + md5_K ! i + M ! g
        in (D, B + leftrotate F' (md5_s ! i), B, C))"

definition word_le :: "8 word list \<Rightarrow> 32 word" where
  "word_le bs = foldr (\<lambda>b w. ucast b OR push_bit 8 w) bs 0"

fun words_le :: "nat \<Rightarrow> 8 word list \<Rightarrow> 32 word list" where
  "words_le 0 bs = []"
| "words_le (Suc n) bs = word_le (take 4 bs) # words_le n (drop 4 bs)"

definition md5_chunk :: "md5_state \<Rightarrow> 8 word list \<Rightarrow> md5_state" where
  "md5_chunk st chunk =
     (case st of (a0, b0, c0, d0) \<Rightarrow>
        (case fold (\<lambda>i s. md5_step (words_le 16 chunk) s i) [0..<64] st of
           (A, B, C, D) \<Rightarrow> (a0 + A, b0 + B, c0 + C, d0 + D)))"

fun md5_chunks :: "nat \<Rightarrow> md5_state \<Rightarrow> 8 word list \<Rightarrow> md5_state" where
  "md5_chunks 0 st bs = st"
| "md5_chunks (Suc n) st bs = md5_chunks n (md5_chunk st (take 64 bs)) (drop 64 bs)"

definition bytes_le :: "nat \<Rightarrow> 'a::len word \<Rightarrow> 8 word list" where
  "bytes_le n x = map (\<lambda>k. ucast (drop_bit (8 * k) x)) [0..<n]"

definition md5_pad :: "8 word list \<Rightarrow> 8 word list" where
  "md5_pad msg =
     msg @ [0x80] @ replicate ((119 - length msg mod 64) mod 64) 0
         @ bytes_le 8 (8 * word_of_nat (length msg) :: 64 word)"

definition hex_digit :: "nat \<Rightarrow> char" where
  "hex_digit n = ''0123456789abcdef'' ! n"

definition hex_byte :: "8 word \<Rightarrow> string" where
  "hex_byte b = [hex_digit (unat b div 16), hex_digit (unat b mod 16)]"

definition md5_digest :: "8 word list \<Rightarrow> 8 word list" where
  "md5_digest msg =
     (let padded = md5_pad msg in
      case md5_chunks (length padded div 64)
             (0x67452301, 0xefcdab89, 0x98badcfe, 0x10325476) padded of
        (a0, b0, c0, d0) \<Rightarrow>
          concat (map (\<lambda>w. bytes_le 4 w) [a0, b0, c0, d0]))"

definition md5_hexdigest :: "8 word list \<Rightarrow> string" where
  "md5_hexdigest msg = concat (map hex_byte (md5_digest msg))"

section \<open>Containers and tags\<close>

text \<open>
  What \<open>mutagen.File\<close> hands back is modelled by the three things the extractor looks
  at: which of the classes \<open>MP3\<close>, \<open>MP4\<close>, \<open>FLAC\<close> the object is an instance of
  (\<open>Other\<close> for any other file type), its \<open>info\<close> (absent or false when \<open>None\<close>) with
  an optional \<open>length\<close> attribute, and its \<open>tags\<close>: \<open>None\<close>, or a dictionary given as
  the list of its items in iteration order. A tag value is a Python list or some other
  object; the elements of a list and the other objects are represented by what \<open>str\<close>
  returns on them.
\<close>

datatype tag_value = TList "pystr list" | TObj pystr

datatype container = MP3 | MP4 | FLAC | Other

record stream_info =
  info_length :: "rat option"

record audio_file =
  kind :: container
  info :: "stream_info option"
  tags :: "(pystr \<times> tag_value) list option"

text \<open>
  The tag dictionaries of the named families differ in how they look a key up
  (\<open>key in tags\<close>, \<open>tags[key]\<close>). The ID3 frames of an MP3 and the atoms of an MP4 are
  found under exactly their key.
\<close>

definition getitem :: "(pystr \<times> tag_value) list \<Rightarrow> pystr \<Rightarrow> tag_value option" where
  "getitem d key = map_of d key"

text \<open>
  The Vorbis comments of a FLAC are found without regard to case: the dictionary
  compares the lowercased key with the lowercased keys of the comments, and its items
  carry the keys in lower case, each with the list of the values of that key.
\<close>

definition getitem_vorbis :: "(pystr \<times> tag_value) list \<Rightarrow> pystr \<Rightarrow> tag_value option" where
  "getitem_vorbis d key = map_of (map (\<lambda>kv. (lower (fst kv), snd kv)) d) (lower key)"

text \<open>\<open>str(value[0]) if isinstance(value, list) and value else str(value)\<close>\<close>

fun str_first :: "tag_value \<Rightarrow> pystr" where
  "str_first (TList (x # xs)) = x"
| "str_first (TList []) = py ''[]''"
| "str_first (TObj s) = s"

text \<open>
  \<open>if audio_file.tags and tag_name in audio_file.tags\<close>: \<open>None\<close> and the empty
  dictionary are false.
\<close>

definition get_id3_tag :: "audio_file \<Rightarrow> pystr \<Rightarrow> pystr option" where
  "get_id3_tag audio_file tag_name =
     (case tags audio_file of
        None \<Rightarrow> None
      | Some d \<Rightarrow>
          if d \<noteq> [] \<and> getitem d tag_name \<noteq> None
          then map_option str_first (getitem d tag_name)
          else None)"

definition get_mp4_tag :: "audio_file \<Rightarrow> pystr \<Rightarrow> pystr option" where
  "get_mp4_tag audio_file tag_name =
     (case tags audio_file of
        None \<Rightarrow> None
      | Some d \<Rightarrow>
          if d \<noteq> [] \<and> getitem d tag_name \<noteq> None
          then map_option str_first (getitem d tag_name)
          else None)"

definition get_vorbis_tag :: "audio_file \<Rightarrow> pystr \<Rightarrow> pystr option" where
  "get_vorbis_tag audio_file tag_name =
     (case tags audio_file of
        None \<Rightarrow> None
      | Some d \<Rightarrow>
          if d \<noteq> [] \<and> getitem_vorbis d (upper tag_name) \<noteq> None
          then map_option str_first (getitem_vorbis d (upper tag_name))
          else None)"

text \<open>\<open>x or default\<close> for an optional string: \<open>None\<close> and the empty string are false.\<close>

definition or_else :: "pystr option \<Rightarrow> pystr \<Rightarrow> pystr" where
  "or_else x dflt =
     (case x of None \<Rightarrow> dflt | Some s \<Rightarrow> if s = [] then dflt else s)"

text \<open>\<open>str(value[0] if isinstance(value, list) else value)\<close>; \<open>[][0]\<close> raises.\<close>

fun first_or_self :: "tag_value \<Rightarrow> exn + pystr" where
  "first_or_self (TList []) = Inl IndexError"
| "first_or_self (TList (x # xs)) = Inr x"
| "first_or_self (TObj s) = Inr s"

text \<open>
  The loop of the last branch over \<open>tags.items()\<close>, on the variables \<open>title\<close>,
  \<open>artist\<close> and \<open>album\<close>.
\<close>

fun generic_tags ::
  "(pystr \<times> tag_value) list \<Rightarrow> pystr \<times> pystr \<times> pystr \<Rightarrow> exn + pystr \<times> pystr \<times> pystr"
where
  "generic_tags [] st = Inr st"
| "generic_tags ((key, value) # rest) (title, artist, album) =
     (let key_lower = lower key in
      if sublist (py ''title'') key_lower then
        (case first_or_self value of
           Inl e \<Rightarrow> Inl e
         | Inr s \<Rightarrow> generic_tags rest (s, artist, album))
      else if sublist (py ''artist'') key_lower then
        (case first_or_self value of
           Inl e \<Rightarrow> Inl e
         | Inr s \<Rightarrow> generic_tags rest (title, s, album))
      else if sublist (py ''album'') key_lower then
        (case first_or_self value of
           Inl e \<Rightarrow> Inl e
         | Inr s \<Rightarrow> generic_tags rest (title, artist, s))
      else generic_tags rest (title, artist, album))"

text \<open>The \<open>isinstance\<close> chain, started from the default title, artist and album.\<close>

definition dispatch_tags ::
  "audio_file \<Rightarrow> pystr \<times> pystr \<times> pystr \<Rightarrow> exn + pystr \<times> pystr \<times> pystr"
where
  "dispatch_tags audio_file st =
     (case st of (title, artist, album) \<Rightarrow>
        (case kind audio_file of
           MP3 \<Rightarrow>
             Inr (or_else (get_id3_tag audio_file (py ''TIT2'')) title,
                  or_else (get_id3_tag audio_file (py ''TPE1'')) artist,
                  or_else (get_id3_tag audio_file (py ''TALB'')) album)
         | MP4 \<Rightarrow>
             Inr (or_else (get_mp4_tag audio_file (py (CHR 0xA9 # ''nam''))) title,
                  or_else (get_mp4_tag audio_file (py (CHR 0xA9 # ''ART''))) artist,
                  or_else (get_mp4_tag audio_file (py (CHR 0xA9 # ''alb''))) album)
         | FLAC \<Rightarrow>
             Inr (or_else (get_vorbis_tag audio_file (py ''TITLE'')) title,
                  or_else (get_vorbis_tag audio_file (py ''ARTIST'')) artist,
                  or_else (get_vorbis_tag audio_file (py ''ALBUM'')) album)
         | Other \<Rightarrow>
             generic_tags (case tags audio_file of None \<Rightarrow> [] | Some d \<Rightarrow> d)
               (title, artist, album)))"

text \<open>
  The duration read from the container: \<open>0\<close> unless \<open>info\<close> is there and has a
  \<open>length\<close>.
\<close>

definition read_duration :: "audio_file \<Rightarrow> rat" where
  "read_duration audio_file =
     (case info audio_file of
        None \<Rightarrow> 0
      | Some i \<Rightarrow> (case info_length i of None \<Rightarrow> 0 | Some l \<Rightarrow> l))"

text \<open>
  \<open>round(x, ndigits)\<close> on exact numbers: the nearest multiple of \<open>10 ^ -ndigits\<close>, a
  tie going to the even one.
\<close>

definition round_half_even :: "rat \<Rightarrow> int" where
  "round_half_even x =
     (let f = \<lfloor>x\<rfloor>; d = x - of_int f in
      if d < 1 / 2 then f
      else if 1 / 2 < d then f + 1
      else if even f then f else f + 1)"

definition round_py :: "rat \<Rightarrow> nat \<Rightarrow> rat" where
  "round_py x ndigits = of_int (round_half_even (x * 10 ^ ndigits)) / 10 ^ ndigits"

section \<open>The track record and the world around the scanner\<close>

record track =
  id_track :: pystr
  title :: pystr
  artist :: pystr
  album :: pystr
  filename :: pystr
  path :: pystr
  relative_path :: pystr
  duration :: rat
  size_track :: nat
  format :: pystr

text \<open>
  The configuration and the calls that leave the program:
  \<^item> the configured \<open>MUSIC_DIR\<close>;
  \<^item> \<open>Path.exists()\<close>, which answers, or raises the \<open>OSError\<close> of its \<open>stat\<close> call
    when that error is not one of those that say that the path is not there (a name
    that is too long, a parent that may not be searched);
  \<^item> \<open>rglob('*')\<close>, a generator: the paths it yields in order and, when the traversal
    ends early, the \<open>OSError\<close> that ends it;
  \<^item> \<open>mutagen.File\<close>, which raises, returns \<open>None\<close> for a file of no known type, or
    returns a file object;
  \<^item> \<open>stat().st_size\<close>, which raises or returns a size.
\<close>

record env =
  MUSIC_DIR :: pystr
  exists :: "path \<Rightarrow> exn + bool"
  rglob :: "path \<Rightarrow> path list \<times> exn option"
  mutagen_File :: "path \<Rightarrow> exn + audio_file option"
  stat_size :: "path \<Rightarrow> exn + nat"

text \<open>The records handed to the logger, with their level.\<close>

datatype levelname = WARNING | INFO | ERROR

datatype log_record =
    DirectoryMissing pystr
  | ScanStarted pystr
  | ScanFinished nat
  | ExtractFailed path exn

fun level :: "log_record \<Rightarrow> levelname" where
  "level (DirectoryMissing d) = WARNING"
| "level (ScanStarted d) = INFO"
| "level (ScanFinished n) = INFO"
| "level (ExtractFailed p e) = ERROR"

section \<open>MusicScanner\<close>

text \<open>
  The metadata part of \<open>_extract_track_info\<close>: the defaults, then the duration and the
  tags when \<open>mutagen.File\<close> returned an object.
\<close>

definition read_metadata ::
  "audio_file option \<Rightarrow> path \<Rightarrow> exn + rat \<times> pystr \<times> pystr \<times> pystr"
where
  "read_metadata audio file_path =
     (let title = stem file_path;
          artist = py ''Unknown Artist'';
          album = py ''Unknown Album''
      in case audio of
           None \<Rightarrow> Inr (0, title, artist, album)
         | Some audio_file \<Rightarrow>
             (let duration = read_duration audio_file in
              case dispatch_tags audio_file (title, artist, album) of
                Inl e \<Rightarrow> Inl e
              | Inr st \<Rightarrow> Inr (duration, st)))"

text \<open>
  The body of the \<open>try\<close> of \<open>_extract_track_info\<close>, step by step; \<open>Inl\<close> is a raised
  exception. The first step encodes the path string for the digest.
\<close>

definition extract_body :: "env \<Rightarrow> path \<Rightarrow> exn + track" where
  "extract_body env file_path =
     (case encode (str_path file_path) of
        Inl e \<Rightarrow> Inl e
      | Inr data \<Rightarrow>
          (let file_id = py (md5_hexdigest data) in
           case mutagen_File env file_path of
             Inl e \<Rightarrow> Inl e
           | Inr audio \<Rightarrow>
               (case read_metadata audio file_path of
                  Inl e \<Rightarrow> Inl e
                | Inr (dur, title', artist', album') \<Rightarrow>
                    (case relative_to file_path (MUSIC_DIR env) of
                       Inl e \<Rightarrow> Inl e
                     | Inr rel \<Rightarrow>
                         (case stat_size env file_path of
                            Inl e \<Rightarrow> Inl e
                          | Inr sz \<Rightarrow>
                              Inr \<lparr> id_track = file_id,
                                    title = title',
                                    artist = artist',
                                    album = album',
                                    filename = name file_path,
                                    path = str_path file_path,
                                    relative_path = str_path rel,
                                    duration = round_py dur 2,
                                    size_track = sz,
                                    format = drop 1 (lower (suffix_path file_path)) \<rparr>)))))"

text \<open>
  \<open>_extract_track_info\<close>: any exception of the body is logged and turned into \<open>None\<close>.
  The result is paired with the log records written.
\<close>

definition extract_track_info :: "env \<Rightarrow> path \<Rightarrow> track option \<times> log_record list" where
  "extract_track_info env file_path =
     (case extract_body env file_path of
        Inr t \<Rightarrow> (Some t, [])
      | Inl e \<Rightarrow> (None, [ExtractFailed file_path e]))"

definition SUPPORTED_FORMATS :: "pystr set" where
  "SUPPORTED_FORMATS =
     {py ''.mp3'', py ''.mp4'', py ''.m4a'', py ''.flac'', py ''.ogg'', py ''.wav''}"

text \<open>
  The body of the \<open>for\<close> loop of \<open>scan_directory\<close>, run over the paths that \<open>rglob\<close>
  yields, on the list \<open>tracks\<close> and the log. \<open>_extract_track_info\<close> lets no exception
  out, so the \<open>except\<close> of the loop has nothing to catch, and a returned dictionary is
  never false.
\<close>

fun scan_loop ::
  "env \<Rightarrow> path list \<Rightarrow> track list \<times> log_record list \<Rightarrow> track list \<times> log_record list"
where
  "scan_loop env [] st = st"
| "scan_loop env (file_path # rest) (tracks, lg) =
     (if lower (suffix_path file_path) \<in> SUPPORTED_FORMATS then
        (case extract_track_info env file_path of
           (Some track_info, l) \<Rightarrow> scan_loop env rest (tracks @ [track_info], lg @ l)
         | (None, l) \<Rightarrow> scan_loop env rest (tracks, lg @ l))
      else scan_loop env rest (tracks, lg))"

text \<open>
  \<open>scan_directory\<close>: what it returns or the exception it raises, and the log records
  written. The call of \<open>exists\<close> and the iteration of \<open>rglob\<close> are outside every
  \<open>try\<close>: an exception of either leaves the function, and with it the tracks collected
  so far are lost.
\<close>

definition scan_directory :: "env \<Rightarrow> pystr \<Rightarrow> (exn + track list) \<times> log_record list" where
  "scan_directory env directory =
     (let music_path = Path directory in
      case exists env music_path of
        Inl e \<Rightarrow> (Inl e, [])
      | Inr found \<Rightarrow>
          if \<not> found then (Inr [], [DirectoryMissing directory])
          else
            (case rglob env music_path of
               (entries, raised) \<Rightarrow>
                 (case scan_loop env entries ([], [ScanStarted directory]) of
                    (tracks, lg) \<Rightarrow>
                      (case raised of
                         Some e \<Rightarrow> (Inl e, lg)
                       | None \<Rightarrow> (Inr tracks, lg @ [ScanFinished (length tracks)])))))"

section \<open>The routes\<close>

text \<open>
  \<open>/api/scan\<close>: the new value of the global \<open>music_library\<close>, or the exception that
  leaves the handler before the assignment.
\<close>

definition scan_library :: "env \<Rightarrow> exn + track list" where
  "scan_library env = fst (scan_directory env (MUSIC_DIR env))"

text \<open>
  \<open>/api/search\<close>: the tracks of the answer, for the library and the request parameter
  \<open>q\<close> (\<open>None\<close> when the request has none).
\<close>

definition search_tracks :: "track list \<Rightarrow> pystr option \<Rightarrow> track list" where
  "search_tracks music_library q =
     (let query = lower (case q of None \<Rightarrow> [] | Some s \<Rightarrow> s) in
      if query = [] then music_library
      else filter (\<lambda>track. sublist query (lower (title track))
                          \<or> sublist query (lower (artist track))
                          \<or> sublist query (lower (album track))) music_library)"

section \<open>Auxiliary notions\<close>

text \<open>The paths of a directory that \<open>scan_directory\<close> hands to the extractor.\<close>

definition candidates :: "env \<Rightarrow> pystr \<Rightarrow> path list" where
  "candidates env directory =
     filter (\<lambda>p. lower (suffix_path p) \<in> SUPPORTED_FORMATS)
       (fst (rglob env (Path directory)))"

text \<open>
  The value a container's tags hold under a key, if any, looked up the way the tag
  dictionary of the container does it: without regard to case in a FLAC, exactly
  otherwise.
\<close>

definition tag_lookup :: "audio_file \<Rightarrow> pystr \<Rightarrow> tag_value option" where
  "tag_lookup a k =
     (case tags a of
        None \<Rightarrow> None
      | Some d \<Rightarrow> if kind a = FLAC then getitem_vorbis d k else getitem d k)"

text \<open>The title, artist and album keys of the three named container families.\<close>

fun named_keys :: "container \<Rightarrow> (pystr \<times> pystr \<times> pystr) option" where
  "named_keys MP3 = Some (py ''TIT2'', py ''TPE1'', py ''TALB'')"
| "named_keys MP4 =
     Some (py (CHR 0xA9 # ''nam''), py (CHR 0xA9 # ''ART''), py (CHR 0xA9 # ''alb''))"
| "named_keys FLAC = Some (py ''TITLE'', py ''ARTIST'', py ''ALBUM'')"
| "named_keys Other = None"

text \<open>
  The field a key assigns in the generic branch: the first of the three substrings that
  occurs in the lowercased key decides.
\<close>

datatype field = Title | Artist | Album

definition field_of_key :: "pystr \<Rightarrow> field option" where
  "field_of_key key =
     (if sublist (py ''title'') (lower key) then Some Title
      else if sublist (py ''artist'') (lower key) then Some Artist
      else if sublist (py ''album'') (lower key) then Some Album
      else None)"

text \<open>The value of the last item whose key assigns the field.\<close>

definition last_match :: "field \<Rightarrow> (pystr \<times> tag_value) list \<Rightarrow> tag_value option" where
  "last_match f items =
     (case filter (\<lambda>kv. field_of_key (fst kv) = Some f) items of
        [] \<Rightarrow> None
      | x # xs \<Rightarrow> Some (snd (last (x # xs))))"

text \<open>
  The generic heuristic as the specification words it: for a field, the value of the
  first key that contains the substring, and its first element when it is a list.
\<close>

definition spec_first_match ::
  "pystr \<Rightarrow> (pystr \<times> tag_value) list \<Rightarrow> pystr \<Rightarrow> pystr"
where
  "spec_first_match sub items placeholder =
     (case filter (\<lambda>kv. sublist sub (lower (fst kv))) items of
        [] \<Rightarrow> placeholder
      | kv # _ \<Rightarrow> str_first (snd kv))"

text \<open>The duration a container exposes, if any.\<close>

definition container_length :: "audio_file option \<Rightarrow> rat option" where
  "container_length audio =
     (case audio of
        None \<Rightarrow> None
      | Some a \<Rightarrow> (case info a of None \<Rightarrow> None | Some i \<Rightarrow> info_length i))"


text \<open>The items the generic loop runs over: those of \<open>audio_file.tags or {}\<close>.\<close>

definition tag_items :: "audio_file \<Rightarrow> (pystr \<times> tag_value) list" where
  "tag_items a = (case tags a of None \<Rightarrow> [] | Some d \<Rightarrow> d)"

text \<open>
  What the generic loop leaves in a field: the text of the last value whose key assigns
  the field, or what the field held before when no key does.
\<close>

definition last_text :: "field \<Rightarrow> (pystr \<times> tag_value) list \<Rightarrow> pystr \<Rightarrow> pystr" where
  "last_text f items before =
     (case last_match f items of None \<Rightarrow> before | Some v \<Rightarrow> str_first v)"

text \<open>
  The place a path denotes when none of its components is a symbolic link: every
  component \<open>..\<close> is removed together with the component before it (the root has no
  parent but itself).
\<close>

definition normpath_step :: "path \<Rightarrow> pystr \<Rightarrow> path" where
  "normpath_step acc c =
     (if c \<noteq> py ''..'' then acc @ [c]
      else if acc = [] \<or> last acc = py ''..'' then acc @ [c]
      else if has_root acc \<and> length acc = 1 then acc
      else butlast acc)"

definition normpath :: "path \<Rightarrow> path" where
  "normpath p = foldl normpath_step [] p"

section \<open>A sample library\<close>

text \<open>
  A small world. Three directories exist: \<open>/media/music\<close>, which is the configured
  one, \<open>/data/other\<close>, and \<open>/media/other\<close>, which is also reached as
  \<open>/media/music/../other\<close>. In each of them \<open>rglob\<close> finds the same six entries. A path
  with a component of more than 255 characters names nothing, and \<open>exists\<close> raises the
  \<open>OSError\<close> of its \<open>stat\<close> call for it.

  \<open>a.mp3\<close> is an MP3 with ID3 frames, \<open>sub/b.OGG\<close> a container of no named family
  with Vorbis comments, \<open>c.flac\<close> is damaged and makes \<open>mutagen.File\<close> raise, \<open>f.ogg\<close>
  is a container that reports a negative length. Two more files are known to the
  parser: \<open>d.flac\<close> has no artist comment but another key that contains the word and an
  empty album comment, and \<open>e.mp3\<close> has a title frame of three spaces. Every other
  file is of no type \<open>mutagen.File\<close> knows.
\<close>

definition audio_a :: audio_file where
  "audio_a =
     \<lparr> kind = MP3,
       info = Some \<lparr> info_length = Some (123456 / 1000) \<rparr>,
       tags = Some [(py ''TIT2'', TObj (py ''Song A'')),
                    (py ''TPE1'', TObj (py ''Artist A''))] \<rparr>"

definition audio_b :: audio_file where
  "audio_b =
     \<lparr> kind = Other,
       info = None,
       tags = Some [(py ''title'', TList [py ''First'', py ''Extra'']),
                    (py ''subtitle'', TList [py ''Second'']),
                    (py ''albumartist'', TList [py ''Band''])] \<rparr>"

definition audio_d :: audio_file where
  "audio_d =
     \<lparr> kind = FLAC,
       info = Some \<lparr> info_length = Some 200 \<rparr>,
       tags = Some [(py ''title'', TList [py ''Track 2'']),
                    (py ''artistsort'', TList [py ''Smith'']),
                    (py ''album'', TList [[]])] \<rparr>"

definition audio_e :: audio_file where
  "audio_e =
     \<lparr> kind = MP3,
       info = Some \<lparr> info_length = Some 10 \<rparr>,
       tags = Some [(py ''TIT2'', TObj (py ''   ''))] \<rparr>"

definition audio_f :: audio_file where
  "audio_f =
     \<lparr> kind = Other,
       info = Some \<lparr> info_length = Some (- 1) \<rparr>,
       tags = None \<rparr>"

definition env_lib :: env where
  "env_lib =
     \<lparr> MUSIC_DIR = py ''/media/music'',
       exists =
         (\<lambda>p. if list_ex (\<lambda>c. 255 < length c) p then Inl OSError
               else Inr (p = map py [''/'', ''media'', ''music'']
                       \<or> p = map py [''/'', ''data'', ''other'']
                       \<or> p = map py [''/'', ''media'', ''other'']
                       \<or> p = map py [''/'', ''media'', ''music'', ''..'', ''other''])),
       rglob =
         (\<lambda>p. ([p @ [py ''a.mp3''], p @ [py ''sub''], p @ [py ''sub'', py ''b.OGG''],
                p @ [py ''c.flac''], p @ [py ''notes.txt''], p @ [py ''f.ogg'']],
               None)),
       mutagen_File =
         (\<lambda>p. if name p = py ''a.mp3'' then Inr (Some audio_a)
               else if name p = py ''b.OGG'' then Inr (Some audio_b)
               else if name p = py ''c.flac'' then Inl MutagenError
               else if name p = py ''d.flac'' then Inr (Some audio_d)
               else if name p = py ''e.mp3'' then Inr (Some audio_e)
               else if name p = py ''f.ogg'' then Inr (Some audio_f)
               else Inr None),
       stat_size = (\<lambda>p. Inr 1000) \<rparr>"

text \<open>
  The same world when the traversal fails after the first entry: a subdirectory cannot be
  read, with an error that \<open>rglob\<close> does not swallow.
\<close>

definition env_broken :: env where
  "env_broken = env_lib \<lparr> rglob := (\<lambda>p. ([p @ [py ''a.mp3'']], Some OSError)) \<rparr>"

text \<open>A root directory whose only component has 300 characters.\<close>

definition long_root :: pystr where
  "long_root = Chr CHR ''/'' # replicate 300 (Chr CHR ''x'')"

text \<open>
  A file name that the operating system stores as the bytes of \<open>s\<close>, \<open>0xE9\<close> and
  \<open>.mp3\<close>: the second byte is not valid UTF-8 and reaches Python as a surrogate.
\<close>

definition escaped_name :: pystr where
  "escaped_name = py ''s'' @ [Surrogate 0xE9] @ py ''.mp3''"






text \<open>Two tracks of a library to search in.\<close>

definition track_1 :: track where
  "track_1 =
     \<lparr> id_track = py ''3773be3f62c95203a5128a77d2ca69a5'',
       title = py ''Song A'', artist = py ''Artist A'', album = py ''Unknown Album'',
       filename = py ''a.mp3'', path = py ''/media/music/a.mp3'',
       relative_path = py ''a.mp3'',
       duration = 12346 / 100, size_track = 1000, format = py ''mp3'' \<rparr>"

definition track_2 :: track where
  "track_2 =
     \<lparr> id_track = py ''9554eaf870647cad2156cd8c8682a1e3'',
       title = py ''Second'', artist = py ''Band'', album = py ''Unknown Album'',
       filename = py ''b.OGG'', path = py ''/media/music/sub/b.OGG'',
       relative_path = py ''sub/b.OGG'',
       duration = 0, size_track = 1000, format = py ''ogg'' \<rparr>"

text \<open>The paths of the sample files.\<close>

definition music_a_mp3 :: path where
  "music_a_mp3 = [py ''/'', py ''media'', py ''music'', py ''a.mp3'']"

definition music_sub_b_OGG :: path where
  "music_sub_b_OGG = [py ''/'', py ''media'', py ''music'', py ''sub'', py ''b.OGG'']"

definition music_c_flac :: path where
  "music_c_flac = [py ''/'', py ''media'', py ''music'', py ''c.flac'']"

definition music_d_flac :: path where
  "music_d_flac = [py ''/'', py ''media'', py ''music'', py ''d.flac'']"

definition music_e_mp3 :: path where
  "music_e_mp3 = [py ''/'', py ''media'', py ''music'', py ''e.mp3'']"

definition music_f_ogg :: path where
  "music_f_ogg = [py ''/'', py ''media'', py ''music'', py ''f.ogg'']"

definition music_g_m4a :: path where
  "music_g_m4a = [py ''/'', py ''media'', py ''music'', py ''g.m4a'']"

definition music_escaped :: path where
  "music_escaped = [py ''/'', py ''media'', py ''music'', escaped_name]"

definition other_a_mp3 :: path where
  "other_a_mp3 = [py ''/'', py ''data'', py ''other'', py ''a.mp3'']"

definition other_g_m4a :: path where
  "other_g_m4a = [py ''/'', py ''data'', py ''other'', py ''g.m4a'']"

definition dotdot_a_mp3 :: path where
  "dotdot_a_mp3 = [py ''/'', py ''media'', py ''music'', py ''..'', py ''other'', py ''a.mp3'']"

definition dotdot_sub_b_OGG :: path where
  "dotdot_sub_b_OGG =
     [py ''/'', py ''media'', py ''music'', py ''..'', py ''other'', py ''sub'', py ''b.OGG'']"

definition dotdot_c_flac :: path where
  "dotdot_c_flac = [py ''/'', py ''media'', py ''music'', py ''..'', py ''other'', py ''c.flac'']"

definition dotdot_f_ogg :: path where
  "dotdot_f_ogg = [py ''/'', py ''media'', py ''music'', py ''..'', py ''other'', py ''f.ogg'']"

section \<open>Lemmas about the scan and the extractor\<close>

lemma scan_loop_eq:
  "scan_loop env fs (tracks, lg) =
     (tracks @ List.map_filter (\<lambda>p. fst (extract_track_info env p))
                 (filter (\<lambda>p. lower (suffix_path p) \<in> SUPPORTED_FORMATS) fs),
      lg @ concat (map (\<lambda>p. snd (extract_track_info env p))
                 (filter (\<lambda>p. lower (suffix_path p) \<in> SUPPORTED_FORMATS) fs)))"
proof (induction fs arbitrary: tracks lg)
  case Nil
  show ?case by simp
next
  case (Cons p fs)
  show ?case
  proof (cases "lower (suffix_path p) \<in> SUPPORTED_FORMATS")
    case False
    then show ?thesis using Cons.IH by simp
  next
    case True
    obtain r l where e: "extract_track_info env p = (r, l)"
      by (cases "extract_track_info env p")
    show ?thesis
      using True e Cons.IH by (cases r) simp_all
  qed
qed

lemma scan_directory_fst:
  "fst (scan_directory env directory) =
     (case exists env (Path directory) of
        Inl e \<Rightarrow> Inl e
      | Inr found \<Rightarrow>
          if \<not> found then Inr []
          else (case snd (rglob env (Path directory)) of
                  Some e \<Rightarrow> Inl e
                | None \<Rightarrow>
                    Inr (List.map_filter (\<lambda>p. fst (extract_track_info env p))
                           (candidates env directory))))"
  by (simp add: scan_directory_def scan_loop_eq candidates_def Let_def
           split: sum.splits prod.splits option.splits)

lemma scan_directory_Inr_iff:
  "fst (scan_directory env directory) = Inr tracks \<longleftrightarrow>
     (exists env (Path directory) = Inr False \<and> tracks = [])
   \<or> (exists env (Path directory) = Inr True
        \<and> snd (rglob env (Path directory)) = None
        \<and> tracks = List.map_filter (\<lambda>p. fst (extract_track_info env p))
                     (candidates env directory))"
  by (auto simp: scan_directory_fst split: sum.splits option.splits)

lemma map_filter_eq_map_the:
  "List.map_filter f xs = map (\<lambda>x. the (f x)) (filter (\<lambda>x. f x \<noteq> None) xs)"
  by (induction xs) auto

lemma get_id3_tag_lookup:
  "kind a \<noteq> FLAC \<Longrightarrow> get_id3_tag a k = map_option str_first (tag_lookup a k)"
  by (auto simp: get_id3_tag_def tag_lookup_def getitem_def split: option.splits)

lemma get_mp4_tag_lookup:
  "kind a \<noteq> FLAC \<Longrightarrow> get_mp4_tag a k = map_option str_first (tag_lookup a k)"
  by (auto simp: get_mp4_tag_def tag_lookup_def getitem_def split: option.splits)

lemma get_vorbis_tag_lookup:
  "kind a = FLAC \<Longrightarrow> get_vorbis_tag a k = map_option str_first (tag_lookup a (upper k))"
  by (auto simp: get_vorbis_tag_def tag_lookup_def getitem_vorbis_def split: option.splits)

lemma upper_names:
  "upper (py ''TITLE'') = py ''TITLE''"
  "upper (py ''ARTIST'') = py ''ARTIST''"
  "upper (py ''ALBUM'') = py ''ALBUM''"
  by code_simp+

lemma dispatch_tags_named:
  assumes "named_keys (kind a) = Some (k1, k2, k3)"
  shows "dispatch_tags a (ti, ar, al) =
           Inr (or_else (map_option str_first (tag_lookup a k1)) ti,
                or_else (map_option str_first (tag_lookup a k2)) ar,
                or_else (map_option str_first (tag_lookup a k3)) al)"
  using assms
  by (cases "kind a")
     (auto simp: dispatch_tags_def get_id3_tag_lookup get_mp4_tag_lookup
                 get_vorbis_tag_lookup upper_names)

lemma extract_body_Inr_iff:
  "extract_body env p = Inr t \<longleftrightarrow>
     (\<exists>data audio dur ti ar al rel sz.
        encode (str_path p) = Inr data
      \<and> mutagen_File env p = Inr audio
      \<and> read_metadata audio p = Inr (dur, ti, ar, al)
      \<and> relative_to p (MUSIC_DIR env) = Inr rel
      \<and> stat_size env p = Inr sz
      \<and> t = \<lparr> id_track = py (md5_hexdigest data),
               title = ti, artist = ar, album = al,
               filename = name p, path = str_path p,
               relative_path = str_path rel,
               duration = round_py dur 2, size_track = sz,
               format = drop 1 (lower (suffix_path p)) \<rparr>)"
  by (auto simp: extract_body_def Let_def split: sum.splits prod.splits)

lemma extract_track_info_Some_iff:
  "fst (extract_track_info env p) = Some t \<longleftrightarrow> extract_body env p = Inr t"
  by (auto simp: extract_track_info_def split: sum.splits)

lemma extract_track_info_None_iff:
  "fst (extract_track_info env p) = None \<longleftrightarrow> (\<exists>e. extract_body env p = Inl e)"
  by (auto simp: extract_track_info_def split: sum.splits)

lemma read_metadata_Some:
  "read_metadata (Some a) p = Inr (dur, ti, ar, al) \<longleftrightarrow>
     dispatch_tags a (stem p, py ''Unknown Artist'', py ''Unknown Album'') = Inr (ti, ar, al)
     \<and> dur = read_duration a"
  by (auto simp: read_metadata_def Let_def split: sum.splits)

lemma read_metadata_None:
  "read_metadata None p = Inr (0, stem p, py ''Unknown Artist'', py ''Unknown Album'')"
  by (simp add: read_metadata_def)

lemma extract_track_info_SomeI:
  assumes "\<not> isl (encode (str_path p))"
    and "mutagen_File env p = Inr audio"
    and "read_metadata audio p = Inr (dur, ti, ar, al)"
    and "relative_to p (MUSIC_DIR env) = Inr rel"
    and "stat_size env p = Inr sz"
  shows "fst (extract_track_info env p) =
           Some \<lparr> id_track = py (md5_hexdigest (projr (encode (str_path p)))),
                  title = ti, artist = ar, album = al,
                  filename = name p, path = str_path p,
                  relative_path = str_path rel,
                  duration = round_py dur 2, size_track = sz,
                  format = drop 1 (lower (suffix_path p)) \<rparr>"
proof -
  obtain data where d: "encode (str_path p) = Inr data"
    using assms(1) by (cases "encode (str_path p)") auto
  then have "projr (encode (str_path p)) = data"
    by simp
  with d assms(2-) show ?thesis
    by (simp add: extract_track_info_Some_iff extract_body_Inr_iff)
qed

lemma extract_track_info_None_cases:
  "fst (extract_track_info env p) = None \<longleftrightarrow>
     (\<exists>e. encode (str_path p) = Inl e)
   \<or> (\<exists>e. mutagen_File env p = Inl e)
   \<or> (\<exists>audio e. mutagen_File env p = Inr audio \<and> read_metadata audio p = Inl e)
   \<or> (\<exists>e. relative_to p (MUSIC_DIR env) = Inl e)
   \<or> (\<exists>e. stat_size env p = Inl e)"
  by (auto simp: extract_track_info_def extract_body_def Let_def split: sum.splits prod.splits)

lemma extract_track_info_ok_iff:
  "fst (extract_track_info env p) \<noteq> None \<longleftrightarrow>
     \<not> isl (encode (str_path p))
   \<and> \<not> isl (mutagen_File env p)
   \<and> \<not> isl (read_metadata (projr (mutagen_File env p)) p)
   \<and> \<not> isl (relative_to p (MUSIC_DIR env))
   \<and> \<not> isl (stat_size env p)"
  by (auto simp: extract_track_info_def extract_body_def Let_def split: sum.splits prod.splits)

lemma last_match_Nil: "last_match f [] = None"
  by (simp add: last_match_def)

lemma last_match_Cons:
  "last_match f (kv # items) =
     (case last_match f items of
        Some v \<Rightarrow> Some v
      | None \<Rightarrow> if field_of_key (fst kv) = Some f then Some (snd kv) else None)"
  by (auto simp: last_match_def split: list.splits)

lemma last_text_Nil: "last_text f [] before = before"
  by (simp add: last_text_def last_match_Nil)

lemma last_text_Cons:
  "last_text f (kv # items) before =
     last_text f items (if field_of_key (fst kv) = Some f then str_first (snd kv) else before)"
  by (simp add: last_text_def last_match_Cons split: option.splits)

lemma first_or_self_eq:
  "first_or_self v = (if v = TList [] then Inl IndexError else Inr (str_first v))"
  by (cases v rule: first_or_self.cases) simp_all

lemma generic_tags_eq:
  "generic_tags items (ti, ar, al) =
     (if \<exists>kv \<in> set items. field_of_key (fst kv) \<noteq> None \<and> snd kv = TList []
      then Inl IndexError
      else Inr (last_text Title items ti, last_text Artist items ar, last_text Album items al))"
proof (induction items arbitrary: ti ar al)
  case Nil
  show ?case by (simp add: last_text_Nil)
next
  case (Cons kv items)
  obtain key val where kv: "kv = (key, val)" by (cases kv)
  show ?case
  proof (cases "field_of_key key")
    case None
    then have "\<not> sublist (py ''title'') (lower key)" "\<not> sublist (py ''artist'') (lower key)"
      "\<not> sublist (py ''album'') (lower key)"
      by (auto simp: field_of_key_def split: if_splits)
    then show ?thesis
      using None Cons.IH by (simp add: kv last_text_Cons)
  next
    case (Some f)
    show ?thesis
    proof (cases f)
      case Title
      with Some have "sublist (py ''title'') (lower key)"
        by (auto simp: field_of_key_def split: if_splits)
      then show ?thesis
        using Some Title Cons.IH by (simp add: kv last_text_Cons first_or_self_eq)
    next
      case Artist
      with Some have "\<not> sublist (py ''title'') (lower key)" "sublist (py ''artist'') (lower key)"
        by (auto simp: field_of_key_def split: if_splits)
      then show ?thesis
        using Some Artist Cons.IH by (simp add: kv last_text_Cons first_or_self_eq)
    next
      case Album
      with Some have "\<not> sublist (py ''title'') (lower key)" "\<not> sublist (py ''artist'') (lower key)"
        "sublist (py ''album'') (lower key)"
        by (auto simp: field_of_key_def split: if_splits)
      then show ?thesis
        using Some Album Cons.IH by (simp add: kv last_text_Cons first_or_self_eq)
    qed
  qed
qed

lemma dispatch_tags_Other:
  "kind a = Other \<Longrightarrow> dispatch_tags a (ti, ar, al) = generic_tags (tag_items a) (ti, ar, al)"
  by (simp add: dispatch_tags_def tag_items_def)

lemma extract_fields:
  assumes "mutagen_File env p = Inr (Some a)"
    and "fst (extract_track_info env p) = Some t"
  shows "dispatch_tags a (stem p, py ''Unknown Artist'', py ''Unknown Album'')
           = Inr (title t, artist t, album t)"
    and "duration t = round_py (read_duration a) 2"
proof -
  from assms(2) obtain audio dur ti ar al where
    m: "mutagen_File env p = Inr audio" and r: "read_metadata audio p = Inr (dur, ti, ar, al)"
    and t: "title t = ti" "artist t = ar" "album t = al" "duration t = round_py dur 2"
    unfolding extract_track_info_Some_iff extract_body_Inr_iff by auto
  from m assms(1) have "audio = Some a" by simp
  with r t show "dispatch_tags a (stem p, py ''Unknown Artist'', py ''Unknown Album'')
           = Inr (title t, artist t, album t)" "duration t = round_py (read_duration a) 2"
    by (simp_all add: read_metadata_Some)
qed

lemma or_else_cases:
  "or_else x d = (case x of None \<Rightarrow> d | Some s \<Rightarrow> if s = [] then d else s)"
  by (simp add: or_else_def)

lemma floor_le_round_half_even: "of_int (round_half_even x) \<le> x + 1 / 2"
  unfolding round_half_even_def Let_def by (auto; linarith)

lemma round_half_even_ge: "x - 1 / 2 \<le> of_int (round_half_even x)"
  unfolding round_half_even_def Let_def by (auto; linarith)

lemma round_half_even_nonneg: "0 \<le> x \<Longrightarrow> 0 \<le> round_half_even x"
  unfolding round_half_even_def Let_def by auto

lemma round_half_even_0: "round_half_even 0 = 0"
  unfolding round_half_even_def Let_def by simp

lemma round_py_0: "round_py 0 n = 0"
  by (simp add: round_py_def round_half_even_0)

lemma round_py_nonneg: "0 \<le> x \<Longrightarrow> 0 \<le> round_py x n"
  by (simp add: round_py_def round_half_even_nonneg)

lemma round_py_2_close: "\<bar>round_py x 2 - x\<bar> \<le> 1 / 200"
proof -
  define y :: rat where "y = of_int (round_half_even (x * 100))"
  have a: "y \<le> x * 100 + 1 / 2"
    unfolding y_def by (rule floor_le_round_half_even)
  have b: "x * 100 - 1 / 2 \<le> y"
    unfolding y_def by (rule round_half_even_ge)
  have r: "round_py x 2 = y / 100"
    by (simp add: round_py_def y_def)
  show ?thesis
    unfolding r using a b by linarith
qed

lemma read_duration_eq:
  "read_duration a = (case container_length (Some a) of None \<Rightarrow> 0 | Some l \<Rightarrow> l)"
  by (simp add: read_duration_def container_length_def split: option.splits)

lemma extract_duration:
  assumes "fst (extract_track_info env p) = Some t"
  shows "\<exists>audio. mutagen_File env p = Inr audio
           \<and> duration t = (case container_length audio of None \<Rightarrow> 0 | Some l \<Rightarrow> round_py l 2)
           \<and> stat_size env p = Inr (size_track t)"
proof -
  from assms obtain audio dur ti ar al sz where
    m: "mutagen_File env p = Inr audio" and r: "read_metadata audio p = Inr (dur, ti, ar, al)"
    and z: "stat_size env p = Inr sz"
    and t: "duration t = round_py dur 2" "size_track t = sz"
    unfolding extract_track_info_Some_iff extract_body_Inr_iff by auto
  have "dur = (case container_length audio of None \<Rightarrow> 0 | Some l \<Rightarrow> l)"
  proof (cases audio)
    case None
    with r show ?thesis by (simp add: read_metadata_None container_length_def)
  next
    case (Some a)
    with r show ?thesis by (simp add: read_metadata_Some read_duration_eq)
  qed
  then have "duration t = (case container_length audio of None \<Rightarrow> 0 | Some l \<Rightarrow> round_py l 2)"
    using t(1) by (simp add: round_py_0 split: option.splits)
  with m z t(2) show ?thesis by blast
qed

lemma scan_directory_member:
  assumes "fst (scan_directory env directory) = Inr tracks"
    and "t \<in> set tracks"
  shows "\<exists>p \<in> set (candidates env directory). fst (extract_track_info env p) = Some t"
proof -
  from assms(1) have
    "tracks = [] \<or> tracks = List.map_filter (\<lambda>p. fst (extract_track_info env p))
                                 (candidates env directory)"
    by (auto simp: scan_directory_Inr_iff)
  with assms(2) have
    "t \<in> set (List.map_filter (\<lambda>p. fst (extract_track_info env p)) (candidates env directory))"
    by auto
  then obtain p where "p \<in> set (candidates env directory)"
    and "fst (extract_track_info env p) = Some t"
    by (auto simp: map_filter_eq_map_the)
  then show ?thesis
    by blast
qed

lemma relative_to_not_prefix:
  assumes "\<not> prefix (Path other) p"
  shows "relative_to p other = Inl ValueError"
proof -
  have "Path other \<noteq> []"
    using assms by auto
  moreover have "take (length (Path other)) p \<noteq> Path other"
    using assms by (metis take_is_prefix)
  ultimately show ?thesis
    by (simp add: relative_to_def Let_def)
qed

lemma relative_to_Inr:
  "relative_to p other = Inr rel \<Longrightarrow> prefix (Path other) p \<and> rel = drop (length (Path other)) p"
  by (auto simp: relative_to_def Let_def split: if_splits intro: take_is_prefix)
     (metis take_is_prefix)

lemma relative_to_Inl: "relative_to p other = Inl e \<Longrightarrow> e = ValueError"
  by (auto simp: relative_to_def Let_def split: if_splits)

lemma dispatch_tags_Inl_iff:
  "dispatch_tags a (x, y, z) = Inl e \<longleftrightarrow>
     kind a = Other
   \<and> (\<exists>kv \<in> set (tag_items a). field_of_key (fst kv) \<noteq> None \<and> snd kv = TList [])
   \<and> e = IndexError"
proof (cases "kind a")
  case Other
  then show ?thesis
    by (auto simp: dispatch_tags_Other generic_tags_eq)
qed (simp_all add: dispatch_tags_named)

lemma read_metadata_Inl_iff:
  "read_metadata audio p = Inl e \<longleftrightarrow>
     (\<exists>a. audio = Some a \<and> kind a = Other
        \<and> (\<exists>kv \<in> set (tag_items a). field_of_key (fst kv) \<noteq> None \<and> snd kv = TList [])
        \<and> e = IndexError)"
proof (cases audio)
  case None
  then show ?thesis by (simp add: read_metadata_None)
next
  case (Some a)
  have "read_metadata (Some a) p = Inl e \<longleftrightarrow>
          dispatch_tags a (stem p, py ''Unknown Artist'', py ''Unknown Album'') = Inl e"
    by (auto simp: read_metadata_def Let_def split: sum.splits)
  then show ?thesis
    using Some by (simp add: dispatch_tags_Inl_iff)
qed

lemma dispatch_tags_no_items:
  assumes "tag_items a = []"
  shows "dispatch_tags a (x, y, z) = Inr (x, y, z)"
proof (cases "kind a")
  case Other
  then show ?thesis
    using assms by (simp add: dispatch_tags_Other)
next
  case MP3
  have "tag_lookup a k = None" for k
    using assms
    by (auto simp: tag_lookup_def tag_items_def getitem_def getitem_vorbis_def
             split: option.splits)
  then show ?thesis
    using MP3 by (simp add: dispatch_tags_named or_else_def)
next
  case MP4
  have "tag_lookup a k = None" for k
    using assms
    by (auto simp: tag_lookup_def tag_items_def getitem_def getitem_vorbis_def
             split: option.splits)
  then show ?thesis
    using MP4 by (simp add: dispatch_tags_named or_else_def)
next
  case FLAC
  have "tag_lookup a k = None" for k
    using assms
    by (auto simp: tag_lookup_def tag_items_def getitem_def getitem_vorbis_def
             split: option.splits)
  then show ?thesis
    using FLAC by (simp add: dispatch_tags_named or_else_def)
qed








lemma encode_Inl: "encode s = Inl e \<Longrightarrow> e = UnicodeEncodeError"
  by (induction s rule: encode.induct) (auto split: sum.splits)

lemma scan_directory_exists_raises:
  "exists env (Path directory) = Inl e \<Longrightarrow> scan_directory env directory = (Inl e, [])"
  by (simp add: scan_directory_def)

lemma scan_directory_missing:
  "exists env (Path directory) = Inr False \<Longrightarrow>
     scan_directory env directory = (Inr [], [DirectoryMissing directory])"
  by (simp add: scan_directory_def)

lemma scan_directory_rglob_raises:
  "exists env (Path directory) = Inr True \<Longrightarrow> snd (rglob env (Path directory)) = Some e \<Longrightarrow>
     fst (scan_directory env directory) = Inl e"
  by (simp add: scan_directory_fst)

lemma scan_directory_done:
  "exists env (Path directory) = Inr True \<Longrightarrow> snd (rglob env (Path directory)) = None \<Longrightarrow>
     fst (scan_directory env directory) =
       Inr (map (\<lambda>p. the (fst (extract_track_info env p)))
              (filter (\<lambda>p. fst (extract_track_info env p) \<noteq> None) (candidates env directory)))"
  by (simp add: scan_directory_fst map_filter_eq_map_the)

section \<open>The sample library, scanned\<close>

lemma lib_exists: "exists env_lib (Path (py ''/media/music'')) = Inr True"
  by code_simp

lemma lib_rglob_done: "snd (rglob env_lib (Path (py ''/media/music''))) = None"
  by code_simp

lemma lib_candidates:
  "candidates env_lib (py ''/media/music'') =
     [music_a_mp3, music_sub_b_OGG, music_c_flac, music_f_ogg]"
  by code_simp

lemma lib_extract_a: "fst (extract_track_info env_lib music_a_mp3) \<noteq> None"
  unfolding extract_track_info_ok_iff by code_simp

lemma lib_extract_b: "fst (extract_track_info env_lib music_sub_b_OGG) \<noteq> None"
  unfolding extract_track_info_ok_iff by code_simp

lemma lib_extract_f: "fst (extract_track_info env_lib music_f_ogg) \<noteq> None"
  unfolding extract_track_info_ok_iff by code_simp

lemma lib_extract_c: "fst (extract_track_info env_lib music_c_flac) = None"
proof -
  have "isl (mutagen_File env_lib music_c_flac)"
    by code_simp
  then show ?thesis
    using extract_track_info_ok_iff [of env_lib music_c_flac] by blast
qed

lemma scan_lib_tracks:
  "fst (scan_directory env_lib (py ''/media/music'')) =
     Inr [the (fst (extract_track_info env_lib music_a_mp3)),
          the (fst (extract_track_info env_lib music_sub_b_OGG)),
          the (fst (extract_track_info env_lib music_f_ogg))]"
  using lib_extract_a lib_extract_b lib_extract_c lib_extract_f
  by (simp add: scan_directory_fst lib_exists lib_rglob_done lib_candidates
        map_filter_eq_map_the)

lemma extract_f_ogg:
  "fst (extract_track_info env_lib music_f_ogg) =
     Some \<lparr> id_track = py (md5_hexdigest (projr (encode (str_path music_f_ogg)))),
            title = py ''f'', artist = py ''Unknown Artist'', album = py ''Unknown Album'',
            filename = name music_f_ogg,
            path = str_path music_f_ogg,
            relative_path = str_path [py ''f.ogg''],
            duration = round_py (- 1) 2, size_track = 1000,
            format = drop 1 (lower (suffix_path music_f_ogg)) \<rparr>"
proof -
  have c: "\<not> isl (encode (str_path music_f_ogg))"
    by code_simp
  have m: "mutagen_File env_lib music_f_ogg = Inr (Some audio_f)"
    by code_simp
  have r: "read_metadata (Some audio_f) music_f_ogg =
             Inr (- 1, py ''f'', py ''Unknown Artist'', py ''Unknown Album'')"
    by code_simp
  have l: "relative_to music_f_ogg (MUSIC_DIR env_lib) = Inr [py ''f.ogg'']"
    by code_simp
  have z: "stat_size env_lib music_f_ogg = Inr 1000"
    by code_simp
  show ?thesis
    by (rule extract_track_info_SomeI [OF c m r l z])
qed



section \<open>String literals\<close>




lemma extract_relative_path:
  assumes "fst (extract_track_info env p) = Some t"
  shows "prefix (Path (MUSIC_DIR env)) p"
    and "relative_path t = str_path (drop (length (Path (MUSIC_DIR env))) p)"
proof -
  from assms obtain rel where l: "relative_to p (MUSIC_DIR env) = Inr rel"
    and r: "relative_path t = str_path rel"
    unfolding extract_track_info_Some_iff extract_body_Inr_iff by auto
  from relative_to_Inr [OF l] r
  show "prefix (Path (MUSIC_DIR env)) p"
    and "relative_path t = str_path (drop (length (Path (MUSIC_DIR env))) p)"
    by simp_all
qed


section \<open>Properties of the scan\<close>

text \<open>
  C8 (as amended). When \<open>Path(directory).exists()\<close> answers that the root directory is
  not there, \<open>scan_directory\<close> returns the empty list of tracks, and all it does besides
  is to log one record, of level warning; when that directory is the configured one,
  the library of the server becomes the empty list. When \<open>exists()\<close> raises instead, as
  it does for some paths that name nothing, nothing is logged and the exception leaves
  \<open>scan_directory\<close>.
\<close>

theorem scan_directory_missing_root:
  "(exists env (Path directory) = Inr False \<longrightarrow>
       scan_directory env directory = (Inr [], [DirectoryMissing directory])
     \<and> map level (snd (scan_directory env directory)) = [WARNING]
     \<and> (directory = MUSIC_DIR env \<longrightarrow> scan_library env = Inr []))
   \<and> (\<forall>e. exists env (Path directory) = Inl e \<longrightarrow>
          scan_directory env directory = (Inl e, []))"
  by (auto simp: scan_directory_missing scan_directory_exists_raises scan_library_def)

theorem scan_directory_missing_root_witness:
  "exists env_lib (Path (py ''/srv/none'')) = Inr False
   \<and> scan_directory env_lib (py ''/srv/none'') = (Inr [], [DirectoryMissing (py ''/srv/none'')])
   \<and> map level (snd (scan_directory env_lib (py ''/srv/none''))) = [WARNING]
   \<and> scan_library (env_lib \<lparr> MUSIC_DIR := py ''/srv/none'' \<rparr>) = Inr []
   \<and> exists env_lib (Path long_root) = Inl OSError
   \<and> scan_directory env_lib long_root = (Inl OSError, [])"
proof -
  have h: "exists env_lib (Path (py ''/srv/none'')) = Inr False"
    by code_simp
  have c: "exists (env_lib \<lparr> MUSIC_DIR := py ''/srv/none'' \<rparr>) (Path (py ''/srv/none''))
             = Inr False"
    by code_simp
  have r: "exists env_lib (Path long_root) = Inl OSError"
    by code_simp
  show ?thesis
    using h c r scan_directory_missing_root [of env_lib "py ''/srv/none''"]
      scan_directory_missing_root [of "env_lib \<lparr> MUSIC_DIR := py ''/srv/none'' \<rparr>"
        "py ''/srv/none''"]
      scan_directory_missing_root [of env_lib long_root]
    by simp
qed

text \<open>
  The claim as it was stated, for every root directory that does not exist, fails on a
  root whose name has 300 characters: no directory has such a name, \<open>exists()\<close> raises
  the \<open>OSError\<close> of its \<open>stat\<close> call, and the scan raises it without logging anything.
\<close>

theorem missing_root_raises_counterexample:
  "list_ex (\<lambda>c. 255 < length c) (Path long_root)
   \<and> exists env_lib (Path long_root) = Inl OSError
   \<and> scan_directory env_lib long_root = (Inl OSError, [])"
proof -
  have l: "list_ex (\<lambda>c. 255 < length c) (Path long_root)"
    by code_simp
  have h: "exists env_lib (Path long_root) = Inl OSError"
    by code_simp
  show ?thesis
    using l h scan_directory_exists_raises [OF h] by simp
qed

text \<open>
  C4 (as amended). In an existing directory whose traversal ends without an error,
  \<open>scan_directory\<close> returns, and returns exactly the records of the candidate files
  whose extraction succeeds, in the order of the traversal: each record is the one the
  extractor gives for that file alone, so a file whose extraction fails takes no record
  with it and changes none, and there are as many records as files whose extraction
  succeeds. An error of the traversal itself is not caught: it leaves \<open>scan_directory\<close>,
  and no record is returned.
\<close>

theorem scan_directory_isolation:
  "(exists env (Path directory) = Inr True \<and> snd (rglob env (Path directory)) = None \<longrightarrow>
      fst (scan_directory env directory) =
        Inr (map (\<lambda>p. the (fst (extract_track_info env p)))
               (filter (\<lambda>p. fst (extract_track_info env p) \<noteq> None)
                  (candidates env directory)))
    \<and> map_sum id length (fst (scan_directory env directory)) =
        Inr (length (filter (\<lambda>p. fst (extract_track_info env p) \<noteq> None)
                       (candidates env directory))))
   \<and> (\<forall>e. exists env (Path directory) = Inr True \<and> snd (rglob env (Path directory)) = Some e
          \<longrightarrow> fst (scan_directory env directory) = Inl e)"
  by (auto simp: scan_directory_done scan_directory_rglob_raises)

theorem scan_directory_isolation_witness:
  "exists env_lib (Path (py ''/media/music'')) = Inr True
   \<and> snd (rglob env_lib (Path (py ''/media/music''))) = None
   \<and> length (candidates env_lib (py ''/media/music'')) = 4
   \<and> map_sum id length (fst (scan_directory env_lib (py ''/media/music''))) = Inr 3
   \<and> exists env_broken (Path (py ''/media/music'')) = Inr True
   \<and> snd (rglob env_broken (Path (py ''/media/music''))) = Some OSError
   \<and> fst (scan_directory env_broken (py ''/media/music'')) = Inl OSError"
proof -
  have b: "exists env_broken (Path (py ''/media/music'')) = Inr True"
    "snd (rglob env_broken (Path (py ''/media/music''))) = Some OSError"
    by code_simp+
  show ?thesis
    using scan_directory_isolation [of env_lib "py ''/media/music''"]
      scan_directory_isolation [of env_broken "py ''/media/music''"]
      lib_extract_a lib_extract_b lib_extract_c lib_extract_f b
    by (simp add: lib_exists lib_rglob_done lib_candidates)
qed

text \<open>
  The claim as it was stated, with no exception escaping the scan, fails when the
  traversal fails after the first entry: the extraction of \<open>a.mp3\<close> succeeds, and the
  scan raises the \<open>OSError\<close> of the traversal instead of returning its record.
\<close>

theorem traversal_error_counterexample:
  "exists env_broken (Path (py ''/media/music'')) = Inr True
   \<and> rglob env_broken (Path (py ''/media/music'')) = ([music_a_mp3], Some OSError)
   \<and> fst (extract_track_info env_broken music_a_mp3) \<noteq> None
   \<and> fst (scan_directory env_broken (py ''/media/music'')) = Inl OSError"
proof -
  have h: "exists env_broken (Path (py ''/media/music'')) = Inr True"
    by code_simp
  have r: "rglob env_broken (Path (py ''/media/music'')) = ([music_a_mp3], Some OSError)"
    by code_simp
  have a: "fst (extract_track_info env_broken music_a_mp3) \<noteq> None"
    unfolding extract_track_info_ok_iff by code_simp
  have "fst (scan_directory env_broken (py ''/media/music'')) = Inl OSError"
    by (rule scan_directory_rglob_raises [OF h]) (simp add: r)
  with h r a show ?thesis
    by simp
qed

section \<open>Search\<close>

text \<open>
  C7. Without a query, or with the empty one, \<open>search_tracks\<close> returns the library as
  it is. With a query that is not empty it returns, in the order of the library, exactly
  the tracks whose lowercased title, artist or album contains the lowercased query. The
  result is always a subsequence of the library, hence a subset of it.
\<close>

theorem search_tracks_spec:
  "search_tracks lib None = lib
   \<and> search_tracks lib (Some []) = lib
   \<and> (q \<noteq> [] \<longrightarrow>
        search_tracks lib (Some q) =
          filter (\<lambda>t. sublist (lower q) (lower (title t))
                    \<or> sublist (lower q) (lower (artist t))
                    \<or> sublist (lower q) (lower (album t))) lib)
   \<and> subseq (search_tracks lib x) lib
   \<and> set (search_tracks lib x) \<subseteq> set lib"
  by (auto simp: search_tracks_def lower_def Let_def)

theorem search_tracks_spec_witness:
  "py ''SONG'' \<noteq> []
   \<and> search_tracks [track_1, track_2] (Some (py ''SONG'')) = [track_1]
   \<and> search_tracks [track_1, track_2] (Some (py ''band'')) = [track_2]
   \<and> search_tracks [track_1, track_2] (Some (py ''n'')) = [track_1, track_2]
   \<and> search_tracks [track_1, track_2] (Some []) = [track_1, track_2]"
proof -
  have f: "filter (\<lambda>t. sublist (lower (py ''SONG'')) (lower (title t))
                     \<or> sublist (lower (py ''SONG'')) (lower (artist t))
                     \<or> sublist (lower (py ''SONG'')) (lower (album t))) [track_1, track_2]
           = [track_1]"
    by code_simp
  have g: "search_tracks [track_1, track_2] (Some (py ''band'')) = [track_2]"
    "search_tracks [track_1, track_2] (Some (py ''n'')) = [track_1, track_2]"
    by code_simp+
  have n: "py ''SONG'' \<noteq> []"
    by (simp add: py_def)
  then show ?thesis
    using search_tracks_spec [of "[track_1, track_2]" "py ''SONG''"] f g by simp
qed

section \<open>The named container families\<close>

text \<open>
  C5. For a file of one of the three named families, title, artist and album are read
  under the three keys of that family and nowhere else (the tag dictionary of a FLAC
  finds its keys without regard to case, those of an MP3 and an MP4 exactly): each is
  the value found there, or the placeholder when there is none or it is empty, and the
  outcome of the tag dispatch is the same for any tags that agree on these three keys,
  whatever other keys they hold. The generic loop is not run for such a file.
\<close>

theorem named_family_uses_fixed_keys:
  assumes "mutagen_File env p = Inr (Some a)"
    and "named_keys (kind a) = Some (k1, k2, k3)"
    and "fst (extract_track_info env p) = Some t"
  shows "title t = or_else (map_option str_first (tag_lookup a k1)) (stem p)
       \<and> artist t = or_else (map_option str_first (tag_lookup a k2)) (py ''Unknown Artist'')
       \<and> album t = or_else (map_option str_first (tag_lookup a k3)) (py ''Unknown Album'')
       \<and> (\<forall>a' st. kind a' = kind a
              \<and> tag_lookup a' k1 = tag_lookup a k1
              \<and> tag_lookup a' k2 = tag_lookup a k2
              \<and> tag_lookup a' k3 = tag_lookup a k3
            \<longrightarrow> dispatch_tags a' st = dispatch_tags a st)"
proof -
  from assms(3) obtain audio dur ti ar al where
    m: "mutagen_File env p = Inr audio" and r: "read_metadata audio p = Inr (dur, ti, ar, al)"
    and t: "title t = ti" "artist t = ar" "album t = al"
    unfolding extract_track_info_Some_iff extract_body_Inr_iff by auto
  from m assms(1) have "audio = Some a" by simp
  with r have
    "dispatch_tags a (stem p, py ''Unknown Artist'', py ''Unknown Album'') = Inr (ti, ar, al)"
    by (simp add: read_metadata_Some)
  then have fields: "ti = or_else (map_option str_first (tag_lookup a k1)) (stem p)"
    "ar = or_else (map_option str_first (tag_lookup a k2)) (py ''Unknown Artist'')"
    "al = or_else (map_option str_first (tag_lookup a k3)) (py ''Unknown Album'')"
    by (simp_all add: dispatch_tags_named [OF assms(2)])
  have indep: "dispatch_tags a' st = dispatch_tags a st"
    if "kind a' = kind a" "tag_lookup a' k1 = tag_lookup a k1"
       "tag_lookup a' k2 = tag_lookup a k2" "tag_lookup a' k3 = tag_lookup a k3" for a' st
  proof -
    obtain x y z where st: "st = (x, y, z)" by (cases st)
    from that(1) assms(2) have "named_keys (kind a') = Some (k1, k2, k3)" by simp
    then show ?thesis
      using that by (simp add: st dispatch_tags_named [OF assms(2)] dispatch_tags_named)
  qed
  show ?thesis using t fields indep by blast
qed

theorem named_family_uses_fixed_keys_witness:
  "mutagen_File env_lib music_d_flac = Inr (Some audio_d)
   \<and> named_keys (kind audio_d) = Some (py ''TITLE'', py ''ARTIST'', py ''ALBUM'')
   \<and> tags audio_d = Some [(py ''title'', TList [py ''Track 2'']),
                          (py ''artistsort'', TList [py ''Smith'']),
                          (py ''album'', TList [[]])]
   \<and> (\<exists>t. fst (extract_track_info env_lib music_d_flac) = Some t
          \<and> title t = py ''Track 2''
          \<and> artist t = py ''Unknown Artist''
          \<and> album t = py ''Unknown Album'')"
proof -
  have m: "mutagen_File env_lib music_d_flac = Inr (Some audio_d)"
    by code_simp
  have k: "named_keys (kind audio_d) = Some (py ''TITLE'', py ''ARTIST'', py ''ALBUM'')"
    by code_simp
  have g: "tags audio_d = Some [(py ''title'', TList [py ''Track 2'']),
                               (py ''artistsort'', TList [py ''Smith'']),
                               (py ''album'', TList [[]])]"
    by code_simp
  have "fst (extract_track_info env_lib music_d_flac) \<noteq> None"
    unfolding extract_track_info_ok_iff by code_simp
  then obtain t where t: "fst (extract_track_info env_lib music_d_flac) = Some t"
    by blast
  have v:
    "or_else (map_option str_first (tag_lookup audio_d (py ''TITLE''))) (stem music_d_flac)
       = py ''Track 2''"
    "or_else (map_option str_first (tag_lookup audio_d (py ''ARTIST''))) (py ''Unknown Artist'')
       = py ''Unknown Artist''"
    "or_else (map_option str_first (tag_lookup audio_d (py ''ALBUM''))) (py ''Unknown Album'')
       = py ''Unknown Album''"
    by code_simp+
  show ?thesis
    using named_family_uses_fixed_keys [OF m k t] m k g t v by simp
qed

text \<open>
  C3 (as amended). In the branches of the three named families, a tag that is absent or
  whose text is the empty string leaves the placeholder of its field (the stem of the
  file name, \<open>Unknown Artist\<close>, \<open>Unknown Album\<close>); any other text, one made of
  whitespace included, is stored as it is. So artist and album of such a record are
  never empty, and neither is the title unless the stem is.
\<close>

theorem named_family_keeps_placeholder:
  assumes "mutagen_File env p = Inr (Some a)"
    and "named_keys (kind a) = Some (k1, k2, k3)"
    and "fst (extract_track_info env p) = Some t"
  shows "(tag_lookup a k1 = None \<or> (\<exists>v. tag_lookup a k1 = Some v \<and> str_first v = [])
            \<longrightarrow> title t = stem p)
       \<and> (tag_lookup a k2 = None \<or> (\<exists>v. tag_lookup a k2 = Some v \<and> str_first v = [])
            \<longrightarrow> artist t = py ''Unknown Artist'')
       \<and> (tag_lookup a k3 = None \<or> (\<exists>v. tag_lookup a k3 = Some v \<and> str_first v = [])
            \<longrightarrow> album t = py ''Unknown Album'')
       \<and> (\<forall>v. tag_lookup a k1 = Some v \<and> str_first v \<noteq> [] \<longrightarrow> title t = str_first v)
       \<and> (\<forall>v. tag_lookup a k2 = Some v \<and> str_first v \<noteq> [] \<longrightarrow> artist t = str_first v)
       \<and> (\<forall>v. tag_lookup a k3 = Some v \<and> str_first v \<noteq> [] \<longrightarrow> album t = str_first v)
       \<and> (stem p \<noteq> [] \<longrightarrow> title t \<noteq> []) \<and> artist t \<noteq> [] \<and> album t \<noteq> []"
proof -
  have "dispatch_tags a (stem p, py ''Unknown Artist'', py ''Unknown Album'')
          = Inr (title t, artist t, album t)"
    by (rule extract_fields(1) [OF assms(1) assms(3)])
  then have f: "title t = or_else (map_option str_first (tag_lookup a k1)) (stem p)"
    "artist t = or_else (map_option str_first (tag_lookup a k2)) (py ''Unknown Artist'')"
    "album t = or_else (map_option str_first (tag_lookup a k3)) (py ''Unknown Album'')"
    by (simp_all add: dispatch_tags_named [OF assms(2)])
  have n: "py ''Unknown Artist'' \<noteq> []" "py ''Unknown Album'' \<noteq> []"
    by (simp_all add: py_def)
  show ?thesis
    unfolding f or_else_cases using n by (auto split: option.splits)
qed

theorem named_family_keeps_placeholder_witness:
  "mutagen_File env_lib music_d_flac = Inr (Some audio_d)
   \<and> named_keys (kind audio_d) = Some (py ''TITLE'', py ''ARTIST'', py ''ALBUM'')
   \<and> tag_lookup audio_d (py ''TITLE'') = Some (TList [py ''Track 2''])
   \<and> tag_lookup audio_d (py ''ARTIST'') = None
   \<and> tag_lookup audio_d (py ''ALBUM'') = Some (TList [[]])
   \<and> (\<exists>t. fst (extract_track_info env_lib music_d_flac) = Some t
          \<and> title t = py ''Track 2''
          \<and> artist t = py ''Unknown Artist''
          \<and> album t = py ''Unknown Album'')"
proof -
  have m: "mutagen_File env_lib music_d_flac = Inr (Some audio_d)"
    by code_simp
  have k: "named_keys (kind audio_d) = Some (py ''TITLE'', py ''ARTIST'', py ''ALBUM'')"
    by code_simp
  have "fst (extract_track_info env_lib music_d_flac) \<noteq> None"
    unfolding extract_track_info_ok_iff by code_simp
  then obtain t where t: "fst (extract_track_info env_lib music_d_flac) = Some t"
    by blast
  have v: "tag_lookup audio_d (py ''TITLE'') = Some (TList [py ''Track 2''])"
    "tag_lookup audio_d (py ''ARTIST'') = None"
    "tag_lookup audio_d (py ''ALBUM'') = Some (TList [[]])"
    by code_simp+
  have s: "str_first (TList [py ''Track 2'']) = py ''Track 2''" "py ''Track 2'' \<noteq> []"
    "str_first (TList [[]]) = []"
    by (simp_all add: py_def)
  show ?thesis
    using named_family_keeps_placeholder [OF m k t] m k t v s by simp
qed

text \<open>
  The claim as it was stated fails on an MP3 whose title frame holds three spaces: the
  placeholder \<open>e\<close> was available, and the record's title is the three spaces.
\<close>

theorem whitespace_title_counterexample:
  "mutagen_File env_lib music_e_mp3 = Inr (Some audio_e)
   \<and> kind audio_e = MP3
   \<and> tag_lookup audio_e (py ''TIT2'') = Some (TObj (py ''   ''))
   \<and> stem music_e_mp3 = py ''e''
   \<and> map_option title (fst (extract_track_info env_lib music_e_mp3)) = Some (py ''   '')"
proof -
  have c: "\<not> isl (encode (str_path music_e_mp3))"
    by code_simp
  have m: "mutagen_File env_lib music_e_mp3 = Inr (Some audio_e)"
    by code_simp
  have k: "kind audio_e = MP3" "tag_lookup audio_e (py ''TIT2'') = Some (TObj (py ''   ''))"
    "stem music_e_mp3 = py ''e''"
    by code_simp+
  have r: "read_metadata (Some audio_e) music_e_mp3 =
             Inr (10, py ''   '', py ''Unknown Artist'', py ''Unknown Album'')"
    by code_simp
  have l: "relative_to music_e_mp3 (MUSIC_DIR env_lib) = Inr [py ''e.mp3'']"
    by code_simp
  have z: "stat_size env_lib music_e_mp3 = Inr 1000"
    by code_simp
  show ?thesis
    using m k by (simp add: extract_track_info_SomeI [OF c m r l z])
qed

section \<open>The generic branch\<close>

text \<open>
  C1 (as amended). For a file whose container is none of the three named families, the
  loop over the tags lets a key assign the title when its lowercased form contains
  \<open>title\<close>, else the artist when it contains \<open>artist\<close>, else the album when it
  contains \<open>album\<close>. Every such key overwrites the field, so each field ends with the
  text of the LAST key that assigns it (the first element when the value is a list), or
  with its placeholder when no key assigns it. An empty list under an assigning key
  raises \<open>IndexError\<close> instead.
\<close>

theorem generic_branch_last_match:
  assumes "mutagen_File env p = Inr (Some a)"
    and "kind a = Other"
  shows "dispatch_tags a (ti, ar, al) =
           (if \<exists>kv \<in> set (tag_items a). field_of_key (fst kv) \<noteq> None \<and> snd kv = TList []
            then Inl IndexError
            else Inr (last_text Title (tag_items a) ti,
                      last_text Artist (tag_items a) ar,
                      last_text Album (tag_items a) al))
       \<and> (\<forall>t. fst (extract_track_info env p) = Some t \<longrightarrow>
              title t = last_text Title (tag_items a) (stem p)
            \<and> artist t = last_text Artist (tag_items a) (py ''Unknown Artist'')
            \<and> album t = last_text Album (tag_items a) (py ''Unknown Album''))"
proof -
  have d: "dispatch_tags a (x, y, z) =
           (if \<exists>kv \<in> set (tag_items a). field_of_key (fst kv) \<noteq> None \<and> snd kv = TList []
            then Inl IndexError
            else Inr (last_text Title (tag_items a) x,
                      last_text Artist (tag_items a) y,
                      last_text Album (tag_items a) z))" for x y z
    using assms(2) by (simp only: dispatch_tags_Other generic_tags_eq)
  have "title t = last_text Title (tag_items a) (stem p)
      \<and> artist t = last_text Artist (tag_items a) (py ''Unknown Artist'')
      \<and> album t = last_text Album (tag_items a) (py ''Unknown Album'')"
    if "fst (extract_track_info env p) = Some t" for t
    using extract_fields(1) [OF assms(1) that]
      d [of "stem p" "py ''Unknown Artist''" "py ''Unknown Album''"]
    by (auto split: if_splits)
  then show ?thesis using d by blast
qed

theorem generic_branch_last_match_witness:
  "mutagen_File env_lib music_sub_b_OGG = Inr (Some audio_b)
   \<and> kind audio_b = Other
   \<and> (\<exists>t. fst (extract_track_info env_lib music_sub_b_OGG) = Some t
          \<and> title t = py ''Second'' \<and> artist t = py ''Band'' \<and> album t = py ''Unknown Album'')"
proof -
  let ?p = "music_sub_b_OGG"
  have m: "mutagen_File env_lib ?p = Inr (Some audio_b)"
    by code_simp
  have k: "kind audio_b = Other"
    by code_simp
  have "fst (extract_track_info env_lib ?p) \<noteq> None"
    unfolding extract_track_info_ok_iff by code_simp
  then obtain t where t: "fst (extract_track_info env_lib ?p) = Some t"
    by blast
  have v: "last_text Title (tag_items audio_b) (stem ?p) = py ''Second''"
    "last_text Artist (tag_items audio_b) (py ''Unknown Artist'') = py ''Band''"
    "last_text Album (tag_items audio_b) (py ''Unknown Album'') = py ''Unknown Album''"
    by code_simp+
  show ?thesis
    using generic_branch_last_match
        [OF m k, of "stem ?p" "py ''Unknown Artist''" "py ''Unknown Album''"]
      m k t v by simp
qed

text \<open>
  The claim as it was stated, with the first matching key winning, fails on a file with
  the comments \<open>title\<close> and \<open>subtitle\<close>: the specification's first match is the
  value of \<open>title\<close>, the record carries the value of \<open>subtitle\<close>.
\<close>

theorem generic_branch_first_match_counterexample:
  "mutagen_File env_lib music_sub_b_OGG = Inr (Some audio_b)
   \<and> kind audio_b = Other
   \<and> spec_first_match (py ''title'') (tag_items audio_b)
        (stem music_sub_b_OGG) = py ''First''
   \<and> map_option title (fst (extract_track_info env_lib music_sub_b_OGG))
        = Some (py ''Second'')"
proof -
  let ?p = "music_sub_b_OGG"
  have m: "mutagen_File env_lib ?p = Inr (Some audio_b)"
    by code_simp
  have k: "kind audio_b = Other"
    by code_simp
  have c: "\<not> isl (encode (str_path ?p))"
    by code_simp
  have s: "spec_first_match (py ''title'') (tag_items audio_b) (stem ?p) = py ''First''"
    by code_simp
  have r: "read_metadata (Some audio_b) ?p =
             Inr (0, py ''Second'', py ''Band'', py ''Unknown Album'')"
    by code_simp
  have l: "relative_to ?p (MUSIC_DIR env_lib) = Inr [py ''sub'', py ''b.OGG'']"
    by code_simp
  have z: "stat_size env_lib ?p = Inr 1000"
    by code_simp
  show ?thesis
    using m k s by (simp add: extract_track_info_SomeI [OF c m r l z])
qed

section \<open>When the extractor returns nothing\<close>

text \<open>
  C2 (as amended). \<open>_extract_track_info\<close> returns \<open>None\<close> exactly when a step of its
  body raises: the encoding of the path string for the digest (a file name with bytes
  that are not UTF-8 holds surrogates, which strict UTF-8 refuses), \<open>mutagen.File\<close>
  raising (it does so for a file it cannot load, not only for one it cannot open), an
  empty list under an assigning key in the generic loop, the relative-path computation
  for a path that is not under \<open>MUSIC_DIR\<close>, or the size \<open>stat\<close>. When the path string
  can be encoded, \<open>mutagen.File\<close> returns \<open>None\<close> or an object that carries no tags,
  the path is under \<open>MUSIC_DIR\<close> and the \<open>stat\<close> succeeds, the result is a record with
  the stem of the file name as title, \<open>Unknown Artist\<close>, \<open>Unknown Album\<close> and the size
  from the filesystem; its duration is \<open>0\<close> when \<open>mutagen.File\<close> returned \<open>None\<close>.
\<close>

theorem extract_null_iff_raise:
  "(fst (extract_track_info env p) = None \<longleftrightarrow>
      encode (str_path p) = Inl UnicodeEncodeError
    \<or> (\<exists>e. mutagen_File env p = Inl e)
    \<or> (\<exists>a. mutagen_File env p = Inr (Some a) \<and> kind a = Other
          \<and> (\<exists>kv \<in> set (tag_items a). field_of_key (fst kv) \<noteq> None \<and> snd kv = TList []))
    \<or> relative_to p (MUSIC_DIR env) = Inl ValueError
    \<or> (\<exists>e. stat_size env p = Inl e))
   \<and> (\<forall>data audio rel sz.
          encode (str_path p) = Inr data
        \<and> mutagen_File env p = Inr audio
        \<and> (audio = None \<or> (\<exists>a. audio = Some a \<and> tag_items a = []))
        \<and> relative_to p (MUSIC_DIR env) = Inr rel
        \<and> stat_size env p = Inr sz
        \<longrightarrow> (\<exists>t. fst (extract_track_info env p) = Some t
                \<and> title t = stem p
                \<and> artist t = py ''Unknown Artist''
                \<and> album t = py ''Unknown Album''
                \<and> size_track t = sz
                \<and> (audio = None \<longrightarrow> duration t = 0)))"
proof (intro conjI allI impI)
  show "fst (extract_track_info env p) = None \<longleftrightarrow>
      encode (str_path p) = Inl UnicodeEncodeError
    \<or> (\<exists>e. mutagen_File env p = Inl e)
    \<or> (\<exists>a. mutagen_File env p = Inr (Some a) \<and> kind a = Other
          \<and> (\<exists>kv \<in> set (tag_items a). field_of_key (fst kv) \<noteq> None \<and> snd kv = TList []))
    \<or> relative_to p (MUSIC_DIR env) = Inl ValueError
    \<or> (\<exists>e. stat_size env p = Inl e)"
    unfolding extract_track_info_None_cases read_metadata_Inl_iff
    using relative_to_Inl [of p "MUSIC_DIR env"] encode_Inl [of "str_path p"] by blast
next
  fix data audio rel sz
  assume h: "encode (str_path p) = Inr data
        \<and> mutagen_File env p = Inr audio
        \<and> (audio = None \<or> (\<exists>a. audio = Some a \<and> tag_items a = []))
        \<and> relative_to p (MUSIC_DIR env) = Inr rel
        \<and> stat_size env p = Inr sz"
  then have
    "\<exists>dur. read_metadata audio p = Inr (dur, stem p, py ''Unknown Artist'', py ''Unknown Album'')
          \<and> (audio = None \<longrightarrow> dur = 0)"
    by (auto simp: read_metadata_None read_metadata_Some dispatch_tags_no_items)
  then obtain dur where
    r: "read_metadata audio p = Inr (dur, stem p, py ''Unknown Artist'', py ''Unknown Album'')"
    and d: "audio = None \<longrightarrow> dur = 0"
    by blast
  from h have c: "\<not> isl (encode (str_path p))"
    and m: "mutagen_File env p = Inr audio" and l: "relative_to p (MUSIC_DIR env) = Inr rel"
    and z: "stat_size env p = Inr sz"
    by simp_all
  show "\<exists>t. fst (extract_track_info env p) = Some t
                \<and> title t = stem p
                \<and> artist t = py ''Unknown Artist''
                \<and> album t = py ''Unknown Album''
                \<and> size_track t = sz
                \<and> (audio = None \<longrightarrow> duration t = 0)"
    using d by (simp add: extract_track_info_SomeI [OF c m r l z] round_py_0)
qed

theorem extract_null_iff_raise_witness:
  "\<not> isl (encode (str_path music_g_m4a))
   \<and> mutagen_File env_lib music_g_m4a = Inr None
   \<and> relative_to music_g_m4a (MUSIC_DIR env_lib) = Inr [py ''g.m4a'']
   \<and> stat_size env_lib music_g_m4a = Inr 1000
   \<and> (\<exists>t. fst (extract_track_info env_lib music_g_m4a) = Some t
          \<and> title t = py ''g'' \<and> artist t = py ''Unknown Artist''
          \<and> album t = py ''Unknown Album'' \<and> size_track t = 1000 \<and> duration t = 0)
   \<and> mutagen_File env_lib music_c_flac = Inl MutagenError
   \<and> fst (extract_track_info env_lib music_c_flac) = None
   \<and> encode (str_path music_escaped) = Inl UnicodeEncodeError
   \<and> fst (extract_track_info env_lib music_escaped) = None"
proof -
  have e: "\<not> isl (encode (str_path music_g_m4a))"
    by code_simp
  then obtain data where d: "encode (str_path music_g_m4a) = Inr data"
    by (cases "encode (str_path music_g_m4a)") auto
  have m: "mutagen_File env_lib music_g_m4a = Inr None"
    by code_simp
  have l: "relative_to music_g_m4a (MUSIC_DIR env_lib) = Inr [py ''g.m4a'']"
    by code_simp
  have z: "stat_size env_lib music_g_m4a = Inr 1000"
    by code_simp
  have s: "stem music_g_m4a = py ''g''"
    by code_simp
  have c: "mutagen_File env_lib music_c_flac = Inl MutagenError"
    by code_simp
  have u: "encode (str_path music_escaped) = Inl UnicodeEncodeError"
    by code_simp
  from extract_null_iff_raise [of env_lib music_g_m4a] d m l z
  have "\<exists>t. fst (extract_track_info env_lib music_g_m4a) = Some t
          \<and> title t = stem music_g_m4a \<and> artist t = py ''Unknown Artist''
          \<and> album t = py ''Unknown Album''
          \<and> size_track t = 1000 \<and> (None = (None :: audio_file option) \<longrightarrow> duration t = 0)"
    by blast
  moreover from extract_null_iff_raise [of env_lib music_c_flac] c
  have "fst (extract_track_info env_lib music_c_flac) = None"
    by blast
  moreover from extract_null_iff_raise [of env_lib music_escaped] u
  have "fst (extract_track_info env_lib music_escaped) = None"
    by blast
  ultimately show ?thesis
    using e m l z c s u by simp
qed

text \<open>
  The claim as it was stated fails in the sample library. \<open>c.flac\<close> lies under
  \<open>MUSIC_DIR\<close> and its size can be read, but its container cannot be parsed and
  \<open>mutagen.File\<close> raises: the result is \<open>None\<close>, not a record of placeholders. And
  \<open>/data/other/g.m4a\<close> can be read and is of no known type, but it is not under
  \<open>MUSIC_DIR\<close>: the \<open>ValueError\<close> of the path computation, which is no error of the
  filesystem, makes the result \<open>None\<close>.
\<close>

theorem readable_file_null_counterexample:
  "stat_size env_lib music_c_flac = Inr 1000
   \<and> relative_to music_c_flac (MUSIC_DIR env_lib) = Inr [py ''c.flac'']
   \<and> mutagen_File env_lib music_c_flac = Inl MutagenError
   \<and> fst (extract_track_info env_lib music_c_flac) = None
   \<and> stat_size env_lib other_g_m4a = Inr 1000
   \<and> mutagen_File env_lib other_g_m4a = Inr None
   \<and> relative_to other_g_m4a (MUSIC_DIR env_lib) = Inl ValueError
   \<and> fst (extract_track_info env_lib other_g_m4a) = None"
proof -
  have c: "stat_size env_lib music_c_flac = Inr 1000"
    "relative_to music_c_flac (MUSIC_DIR env_lib) = Inr [py ''c.flac'']"
    "mutagen_File env_lib music_c_flac = Inl MutagenError"
    by code_simp+
  have g: "stat_size env_lib other_g_m4a = Inr 1000"
    "mutagen_File env_lib other_g_m4a = Inr None"
    "relative_to other_g_m4a (MUSIC_DIR env_lib) = Inl ValueError"
    by code_simp+
  have "fst (extract_track_info env_lib music_c_flac) = None"
    unfolding extract_track_info_None_cases using c(3) by blast
  moreover have "fst (extract_track_info env_lib other_g_m4a) = None"
    unfolding extract_track_info_None_cases using g(3) by blast
  ultimately show ?thesis
    using c g by simp
qed

section \<open>Duration and size\<close>

text \<open>
  C9 (as amended). Every record of a scan comes from a candidate file and carries the
  size the filesystem reported, which is not negative. Its duration is \<open>0\<close> when the
  container exposes no duration, and otherwise the exposed length rounded to two
  decimal places: a whole number of hundredths, at most half a hundredth away from the
  length, and not negative whenever the exposed length is not negative. The extractor
  itself does not clamp the length.
\<close>

theorem scanned_duration_and_size:
  assumes "fst (scan_directory env directory) = Inr tracks"
    and "t \<in> set tracks"
  shows "\<exists>p \<in> set (candidates env directory). \<exists>audio.
           fst (extract_track_info env p) = Some t
         \<and> mutagen_File env p = Inr audio
         \<and> (container_length audio = None \<longrightarrow> duration t = 0)
         \<and> (\<forall>l. container_length audio = Some l \<longrightarrow>
                duration t = round_py l 2
              \<and> (\<exists>k. duration t = of_int k / 100)
              \<and> \<bar>duration t - l\<bar> \<le> 1 / 200
              \<and> (0 \<le> l \<longrightarrow> 0 \<le> duration t))
         \<and> stat_size env p = Inr (size_track t)
         \<and> 0 \<le> size_track t"
proof -
  from scan_directory_member [OF assms] obtain p where
    p: "p \<in> set (candidates env directory)" and e: "fst (extract_track_info env p) = Some t"
    by blast
  from extract_duration [OF e] obtain audio where
    m: "mutagen_File env p = Inr audio"
    and d: "duration t = (case container_length audio of None \<Rightarrow> 0 | Some l \<Rightarrow> round_py l 2)"
    and z: "stat_size env p = Inr (size_track t)"
    by blast
  have k: "\<exists>k. round_py l 2 = of_int k / 100" for l
    by (auto simp: round_py_def)
  have "(container_length audio = None \<longrightarrow> duration t = 0)
      \<and> (\<forall>l. container_length audio = Some l \<longrightarrow>
                duration t = round_py l 2
              \<and> (\<exists>k. duration t = of_int k / 100)
              \<and> \<bar>duration t - l\<bar> \<le> 1 / 200
              \<and> (0 \<le> l \<longrightarrow> 0 \<le> duration t))"
    using d k round_py_2_close round_py_nonneg by (auto split: option.splits)
  with p e m z show ?thesis
    by (intro bexI [of _ p] exI [of _ audio] conjI) (blast, blast, blast, blast, blast, simp, blast)
qed

theorem scanned_duration_and_size_witness:
  "fst (scan_directory env_lib (py ''/media/music'')) =
     Inr [the (fst (extract_track_info env_lib music_a_mp3)),
          the (fst (extract_track_info env_lib music_sub_b_OGG)),
          the (fst (extract_track_info env_lib music_f_ogg))]
   \<and> (\<exists>p \<in> set (candidates env_lib (py ''/media/music'')). \<exists>audio.
         fst (extract_track_info env_lib p)
           = Some (the (fst (extract_track_info env_lib music_a_mp3)))
       \<and> mutagen_File env_lib p = Inr audio
       \<and> (\<forall>l. container_length audio = Some l \<longrightarrow>
              duration (the (fst (extract_track_info env_lib music_a_mp3))) = round_py l 2)
       \<and> stat_size env_lib p
           = Inr (size_track (the (fst (extract_track_info env_lib music_a_mp3)))))
   \<and> round_py (123456 / 1000) 2 = 12346 / 100"
proof -
  let ?t = "the (fst (extract_track_info env_lib music_a_mp3))"
  let ?tracks = "[the (fst (extract_track_info env_lib music_a_mp3)),
                  the (fst (extract_track_info env_lib music_sub_b_OGG)),
                  the (fst (extract_track_info env_lib music_f_ogg))]"
  have s: "fst (scan_directory env_lib (py ''/media/music'')) = Inr ?tracks"
    by (rule scan_lib_tracks)
  have h: "?t \<in> set ?tracks"
    by simp
  have r: "round_py (123456 / 1000) 2 = 12346 / 100"
    by code_simp
  show ?thesis
    using s r scanned_duration_and_size [OF s h] by blast
qed

text \<open>
  The claim as it was stated fails in the sample library: \<open>f.ogg\<close> exposes the length
  \<open>-1\<close>, and the last record of the scan has the duration \<open>-1\<close>.
\<close>

theorem negative_duration_counterexample:
  "container_length (Some audio_f) = Some (- 1)
   \<and> (\<exists>tracks. fst (scan_directory env_lib (py ''/media/music'')) = Inr tracks
         \<and> duration (last tracks) = - 1
         \<and> \<not> 0 \<le> duration (last tracks))"
proof -
  have c: "container_length (Some audio_f) = Some (- 1)"
    by code_simp
  have r: "round_py (- 1) 2 = - 1"
    by code_simp
  show ?thesis
    using c r by (simp add: scan_lib_tracks extract_f_ogg)
qed

section \<open>The identifier\<close>




section \<open>Scanning outside the configured directory\<close>

text \<open>
  C10 (as amended). The relative path of a record is computed against the configured
  \<open>MUSIC_DIR\<close>, whatever directory is scanned, and the computation compares the written
  components of the two paths: for a file whose path does not start with the components
  of \<open>MUSIC_DIR\<close> it raises \<open>ValueError\<close> and the extraction returns \<open>None\<close>, and the
  relative path of every record is the file's path with the components of \<open>MUSIC_DIR\<close>
  dropped. So when the traversal yields paths that start with the scanned directory, and
  neither the scanned directory nor \<open>MUSIC_DIR\<close> is written as the start of the other,
  every list of tracks that the scan returns is empty, whatever audio files the
  directory holds; and the scan returns the empty list when the directory exists and
  the traversal ends without an error.
\<close>

theorem scan_outside_MUSIC_DIR:
  "(\<forall>p. \<not> prefix (Path (MUSIC_DIR env)) p \<longrightarrow>
        relative_to p (MUSIC_DIR env) = Inl ValueError
      \<and> fst (extract_track_info env p) = None)
   \<and> (\<forall>p t. fst (extract_track_info env p) = Some t \<longrightarrow>
          prefix (Path (MUSIC_DIR env)) p
        \<and> relative_path t = str_path (drop (length (Path (MUSIC_DIR env))) p))
   \<and> ((\<forall>p \<in> set (fst (rglob env (Path directory))). prefix (Path directory) p)
        \<and> \<not> prefix (Path (MUSIC_DIR env)) (Path directory)
        \<and> \<not> prefix (Path directory) (Path (MUSIC_DIR env))
      \<longrightarrow> (\<forall>tracks. fst (scan_directory env directory) = Inr tracks \<longrightarrow> tracks = [])
        \<and> (exists env (Path directory) = Inr True
             \<and> snd (rglob env (Path directory)) = None
           \<longrightarrow> fst (scan_directory env directory) = Inr []))"
proof (intro conjI allI impI)
  fix p
  assume n: "\<not> prefix (Path (MUSIC_DIR env)) p"
  then show "relative_to p (MUSIC_DIR env) = Inl ValueError"
    by (rule relative_to_not_prefix)
  then show "fst (extract_track_info env p) = None"
    unfolding extract_track_info_None_cases by blast
next
  fix p t
  assume s: "fst (extract_track_info env p) = Some t"
  then show "prefix (Path (MUSIC_DIR env)) p"
    and "relative_path t = str_path (drop (length (Path (MUSIC_DIR env))) p)"
    by (rule extract_relative_path)+
next
  assume h: "(\<forall>p \<in> set (fst (rglob env (Path directory))). prefix (Path directory) p)
        \<and> \<not> prefix (Path (MUSIC_DIR env)) (Path directory)
        \<and> \<not> prefix (Path directory) (Path (MUSIC_DIR env))"
  have none: "fst (extract_track_info env p) = None"
    if "p \<in> set (candidates env directory)" for p
  proof -
    from that h have "prefix (Path directory) p"
      by (simp add: candidates_def)
    with h have "\<not> prefix (Path (MUSIC_DIR env)) p"
      using prefix_same_cases by blast
    then have "relative_to p (MUSIC_DIR env) = Inl ValueError"
      by (rule relative_to_not_prefix)
    then show ?thesis
      unfolding extract_track_info_None_cases by blast
  qed
  {
    fix tracks
    assume r: "fst (scan_directory env directory) = Inr tracks"
    show "tracks = []"
    proof (rule ccontr)
      assume "tracks \<noteq> []"
      then obtain t where "t \<in> set tracks"
        by (cases tracks) auto
      from scan_directory_member [OF r this] none show False
        by auto
    qed
  }
  {
    assume e: "exists env (Path directory) = Inr True
             \<and> snd (rglob env (Path directory)) = None"
    then show "fst (scan_directory env directory) = Inr []"
      using none by (simp add: scan_directory_done filter_empty_conv)
  }
qed

theorem scan_outside_MUSIC_DIR_witness:
  "list_all (prefix (Path (py ''/data/other''))) (fst (rglob env_lib (Path (py ''/data/other''))))
   \<and> \<not> prefix (Path (MUSIC_DIR env_lib)) (Path (py ''/data/other''))
   \<and> \<not> prefix (Path (py ''/data/other'')) (Path (MUSIC_DIR env_lib))
   \<and> exists env_lib (Path (py ''/data/other'')) = Inr True
   \<and> snd (rglob env_lib (Path (py ''/data/other''))) = None
   \<and> length (candidates env_lib (py ''/data/other'')) = 4
   \<and> mutagen_File env_lib other_a_mp3 = Inr (Some audio_a)
   \<and> stat_size env_lib other_a_mp3 = Inr 1000
   \<and> fst (extract_track_info env_lib other_a_mp3) = None
   \<and> fst (scan_directory env_lib (py ''/data/other'')) = Inr []
   \<and> map_option relative_path (fst (extract_track_info env_lib music_a_mp3))
       = Some (py ''a.mp3'')"
proof -
  obtain t where t: "fst (extract_track_info env_lib music_a_mp3) = Some t"
    using lib_extract_a by blast
  have d: "str_path (drop (length (Path (MUSIC_DIR env_lib))) music_a_mp3) = py ''a.mp3''"
    by code_simp
  from scan_outside_MUSIC_DIR [of env_lib "py ''/data/other''"] t
  have "relative_path t = str_path (drop (length (Path (MUSIC_DIR env_lib))) music_a_mp3)"
    by blast
  with t d have a: "map_option relative_path (fst (extract_track_info env_lib music_a_mp3))
       = Some (py ''a.mp3'')"
    by simp
  have h: "(\<forall>p \<in> set (fst (rglob env_lib (Path (py ''/data/other'')))).
              prefix (Path (py ''/data/other'')) p)
      \<and> \<not> prefix (Path (MUSIC_DIR env_lib)) (Path (py ''/data/other''))
      \<and> \<not> prefix (Path (py ''/data/other'')) (Path (MUSIC_DIR env_lib))"
    by code_simp
  have e: "exists env_lib (Path (py ''/data/other'')) = Inr True"
    "snd (rglob env_lib (Path (py ''/data/other''))) = None"
    "length (candidates env_lib (py ''/data/other'')) = 4"
    "mutagen_File env_lib other_a_mp3 = Inr (Some audio_a)"
    "stat_size env_lib other_a_mp3 = Inr 1000"
    by code_simp+
  have n: "\<not> prefix (Path (MUSIC_DIR env_lib)) other_a_mp3"
    by code_simp
  from scan_outside_MUSIC_DIR [of env_lib "py ''/data/other''"] n
  have "fst (extract_track_info env_lib other_a_mp3) = None"
    by blast
  moreover from scan_outside_MUSIC_DIR [of env_lib "py ''/data/other''"] h e(1,2)
  have "fst (scan_directory env_lib (py ''/data/other'')) = Inr []"
    by blast
  ultimately show ?thesis
    using h e a by (simp add: list_all_iff)
qed

text \<open>
  The claim as it was stated, for every directory that is disjoint from \<open>MUSIC_DIR\<close>,
  fails in the sample library. The directory \<open>/media/music/../other\<close> is the place
  \<open>/media/other\<close>, which is neither inside \<open>/media/music\<close> nor around it; but its
  path is written with the components of \<open>MUSIC_DIR\<close> first, no relative-path
  computation raises, and the scan returns the three records of its readable audio
  files, with relative paths that leave \<open>MUSIC_DIR\<close>.
\<close>

theorem scan_dotdot_directory_counterexample:
  "normpath (Path (py ''/media/music/../other'')) = [py ''/'', py ''media'', py ''other'']
   \<and> normpath (Path (MUSIC_DIR env_lib)) = [py ''/'', py ''media'', py ''music'']
   \<and> \<not> prefix (normpath (Path (MUSIC_DIR env_lib)))
               (normpath (Path (py ''/media/music/../other'')))
   \<and> \<not> prefix (normpath (Path (py ''/media/music/../other'')))
               (normpath (Path (MUSIC_DIR env_lib)))
   \<and> map_sum id (map relative_path) (fst (scan_directory env_lib (py ''/media/music/../other'')))
       = Inr [py ''../other/a.mp3'', py ''../other/sub/b.OGG'', py ''../other/f.ogg'']"
proof -
  let ?d = "py ''/media/music/../other''"
  have n: "normpath (Path ?d) = [py ''/'', py ''media'', py ''other'']"
    "normpath (Path (MUSIC_DIR env_lib)) = [py ''/'', py ''media'', py ''music'']"
    "\<not> prefix (normpath (Path (MUSIC_DIR env_lib))) (normpath (Path ?d))"
    "\<not> prefix (normpath (Path ?d)) (normpath (Path (MUSIC_DIR env_lib)))"
    by code_simp+
  have e: "exists env_lib (Path ?d) = Inr True" "snd (rglob env_lib (Path ?d)) = None"
    by code_simp+
  have c: "candidates env_lib ?d = [dotdot_a_mp3, dotdot_sub_b_OGG, dotdot_c_flac, dotdot_f_ogg]"
    by code_simp
  have a: "fst (extract_track_info env_lib dotdot_a_mp3) \<noteq> None"
    unfolding extract_track_info_ok_iff by code_simp
  have b: "fst (extract_track_info env_lib dotdot_sub_b_OGG) \<noteq> None"
    unfolding extract_track_info_ok_iff by code_simp
  have f: "fst (extract_track_info env_lib dotdot_f_ogg) \<noteq> None"
    unfolding extract_track_info_ok_iff by code_simp
  have "isl (mutagen_File env_lib dotdot_c_flac)"
    by code_simp
  then have x: "fst (extract_track_info env_lib dotdot_c_flac) = None"
    using extract_track_info_ok_iff [of env_lib dotdot_c_flac] by blast
  have r: "relative_path (the (fst (extract_track_info env_lib p)))
             = str_path (drop (length (Path (MUSIC_DIR env_lib))) p)"
    if "fst (extract_track_info env_lib p) \<noteq> None" for p
    using that extract_relative_path(2) [of env_lib p] by auto
  have s: "str_path (drop (length (Path (MUSIC_DIR env_lib))) dotdot_a_mp3)
             = py ''../other/a.mp3''"
    "str_path (drop (length (Path (MUSIC_DIR env_lib))) dotdot_sub_b_OGG)
             = py ''../other/sub/b.OGG''"
    "str_path (drop (length (Path (MUSIC_DIR env_lib))) dotdot_f_ogg)
             = py ''../other/f.ogg''"
    by code_simp+
  have "fst (scan_directory env_lib ?d) =
          Inr [the (fst (extract_track_info env_lib dotdot_a_mp3)),
               the (fst (extract_track_info env_lib dotdot_sub_b_OGG)),
               the (fst (extract_track_info env_lib dotdot_f_ogg))]"
    using a b f x by (simp add: scan_directory_done [OF e] c)
  then show ?thesis
    using n by (simp add: r [OF a] r [OF b] r [OF f] s)
qed

end
